theory Spec2Isabelle
  imports Complex_Main "HOL-Library.AList"
begin

section \<open>Python values, errors and containers\<close>

text \<open>
  The episode builder of \<^verbatim>\<open>liris_fold_fabric_triangle.py\<close> works on what the trajectory
  loader returns: a list of nested dictionaries whose leaves are numbers, one-dimensional
  float arrays and camera frames. A dictionary is an association list in insertion order
  (Python iterates \<^verbatim>\<open>keys()\<close> and \<^verbatim>\<open>items()\<close> in that order); a lookup reads the first
  entry of a key and an assignment to an existing key replaces it in place.

  Every subscript, attribute access and library call that can raise is a branch that
  returns \<open>Inl\<close>. An operation applied to a leaf of another kind than the one the schema
  of the dataset gives it (a frame where a vector is expected, a vector where a number
  is expected) returns an error here as well: NumPy and PIL accept some of these, so the
  model is exact wherever it returns an episode and cautious elsewhere.
\<close>

datatype py_error =
  KeyError | IndexError | TypeError | ValueError | AttributeError | AssertionError | OSError

type_synonym 'a result = "py_error + 'a"

definition bnd :: "'a result \<Rightarrow> ('a \<Rightarrow> 'b result) \<Rightarrow> 'b result" where
  "bnd m f = (case m of Inl e \<Rightarrow> Inl e | Inr x \<Rightarrow> f x)"

fun mapM :: "('a \<Rightarrow> 'b result) \<Rightarrow> 'a list \<Rightarrow> 'b list result" where
  "mapM f [] = Inr []"
| "mapM f (x # xs) = bnd (f x) (\<lambda>y. bnd (mapM f xs) (\<lambda>ys. Inr (y # ys)))"

fun foldM :: "('s \<Rightarrow> 'a \<Rightarrow> 's result) \<Rightarrow> 's \<Rightarrow> 'a list \<Rightarrow> 's result" where
  "foldM f s [] = Inr s"
| "foldM f s (x # xs) = bnd (f s x) (\<lambda>s'. foldM f s' xs)"

text \<open>A list comprehension with a condition that may raise.\<close>

fun filterM :: "('a \<Rightarrow> bool result) \<Rightarrow> 'a list \<Rightarrow> 'a list result" where
  "filterM p [] = Inr []"
| "filterM p (x # xs) =
     bnd (p x) (\<lambda>b. bnd (filterM p xs) (\<lambda>ys. Inr (if b then x # ys else ys)))"

text \<open>
  A camera frame is a three-dimensional array (rows, columns, channels). Its pixel values
  are not computed: the model records which library operations produced them.
\<close>

datatype dtype = UInt8 | UInt16 | Float32 | Float64

datatype resample = NEAREST | LANCZOS | BILINEAR | BICUBIC | BOX | HAMMING

datatype pixels =
  Decoded nat
| Resampled resample "nat \<times> nat" pixels
| ChannelsReversed pixels

record ndarray3 =
  height :: nat
  width :: nat
  channels :: nat
  dtype :: dtype
  pixels :: pixels

definition shape :: "ndarray3 \<Rightarrow> nat \<times> nat \<times> nat" where
  "shape a = (height a, width a, channels a)"

datatype pyval =
  Num real
| Vec "real list"
| Frame ndarray3
| Dict "(string \<times> pyval) list"

fun getitem :: "pyval \<Rightarrow> string \<Rightarrow> pyval result" where
  "getitem (Dict kvs) k = (case map_of kvs k of None \<Rightarrow> Inl KeyError | Some v \<Rightarrow> Inr v)"
| "getitem (Num x) k = Inl TypeError"
| "getitem (Vec xs) k = Inl IndexError"
| "getitem (Frame a) k = Inl IndexError"

fun setitem :: "pyval \<Rightarrow> string \<Rightarrow> pyval \<Rightarrow> pyval result" where
  "setitem (Dict kvs) k v = Inr (Dict (AList.update k v kvs))"
| "setitem (Num x) k v = Inl TypeError"
| "setitem (Vec xs) k v = Inl IndexError"
| "setitem (Frame a) k v = Inl IndexError"

fun items_of :: "pyval \<Rightarrow> (string \<times> pyval) list result" where
  "items_of (Dict kvs) = Inr kvs"
| "items_of (Num x) = Inl AttributeError"
| "items_of (Vec xs) = Inl AttributeError"
| "items_of (Frame a) = Inl AttributeError"

definition keys_of :: "pyval \<Rightarrow> string list result" where
  "keys_of d = bnd (items_of d) (\<lambda>kvs. Inr (map fst kvs))"

text \<open>
  \<^verbatim>\<open>xs[i][field] = value\<close> on a list of dictionaries: the element at position \<open>i\<close>
  is changed by \<open>f\<close>; a negative \<open>i\<close> counts from the end, and a position outside the
  list raises \<^verbatim>\<open>IndexError\<close>.
\<close>

definition set_index :: "'a list \<Rightarrow> int \<Rightarrow> ('a \<Rightarrow> 'a) \<Rightarrow> 'a list result" where
  "set_index xs i f =
     (if 0 \<le> i \<and> i < int (length xs) then Inr (xs[nat i := f (xs ! nat i)])
      else if i < 0 \<and> - i \<le> int (length xs)
      then Inr (xs[nat (int (length xs) + i) := f (xs ! nat (int (length xs) + i))])
      else Inl IndexError)"

definition first :: "'a list \<Rightarrow> 'a result" where
  "first xs = (case xs of [] \<Rightarrow> Inl IndexError | x # _ \<Rightarrow> Inr x)"

section \<open>The library calls of the builder\<close>

text \<open>
  \<^verbatim>\<open>Image.fromarray\<close> takes a three-dimensional array only with 8-bit unsigned
  entries and two, three or four channels (modes LA, RGB, RGBA). \<^verbatim>\<open>resize\<close> takes the
  size as (width, height), raises \<^verbatim>\<open>ValueError\<close> when one of the two is zero, and keeps
  the mode; \<^verbatim>\<open>np.array\<close> of an image gives (height, width, bands) with 8-bit
  unsigned entries.
\<close>

record pil_image =
  bands :: nat
  im_size :: "nat \<times> nat"
  im_data :: pixels

definition Image_fromarray :: "pyval \<Rightarrow> pil_image result" where
  "Image_fromarray v =
     (case v of
        Frame a \<Rightarrow>
          if dtype a = UInt8 \<and> (channels a = 2 \<or> channels a = 3 \<or> channels a = 4)
          then Inr \<lparr>bands = channels a, im_size = (width a, height a), im_data = pixels a\<rparr>
          else Inl TypeError
      | Num x \<Rightarrow> Inl TypeError
      | Vec xs \<Rightarrow> Inl TypeError
      | Dict kvs \<Rightarrow> Inl AttributeError)"

definition Image_resize :: "pil_image \<Rightarrow> nat \<times> nat \<Rightarrow> resample \<Rightarrow> pil_image result" where
  "Image_resize im sz rs =
     (if fst sz = 0 \<or> snd sz = 0 then Inl ValueError
      else Inr (im\<lparr>im_size := sz, im_data := Resampled rs sz (im_data im)\<rparr>))"

definition np_array :: "pil_image \<Rightarrow> ndarray3" where
  "np_array im =
     \<lparr>height = snd (im_size im), width = fst (im_size im), channels = bands im,
      dtype = UInt8, pixels = im_data im\<rparr>"

text \<open>\<^verbatim>\<open>x[..., ::-1]\<close>: the last axis reversed, the shape kept.\<close>

definition reverse_channels :: "pyval \<Rightarrow> ndarray3 result" where
  "reverse_channels v =
     (case v of
        Frame a \<Rightarrow> Inr (a\<lparr>pixels := ChannelsReversed (pixels a)\<rparr>)
      | Num x \<Rightarrow> Inl TypeError
      | Vec xs \<Rightarrow> Inl TypeError
      | Dict kvs \<Rightarrow> Inl TypeError)"

text \<open>\<^verbatim>\<open>np.array([x])\<close> for a number \<open>x\<close>.\<close>

definition np_array1 :: "pyval \<Rightarrow> real list result" where
  "np_array1 v =
     (case v of
        Num x \<Rightarrow> Inr [x]
      | Vec xs \<Rightarrow> Inl TypeError
      | Frame a \<Rightarrow> Inl TypeError
      | Dict kvs \<Rightarrow> Inl TypeError)"

text \<open>\<^verbatim>\<open>np.concatenate((a, [x]))\<close> for a one-dimensional array \<open>a\<close> and a number \<open>x\<close>.\<close>

definition np_concatenate :: "pyval \<Rightarrow> pyval \<Rightarrow> real list result" where
  "np_concatenate a x =
     (case a of
        Vec xs \<Rightarrow> (case x of Num g \<Rightarrow> Inr (xs @ [g])
                   | Vec ys \<Rightarrow> Inl ValueError
                   | Frame b \<Rightarrow> Inl ValueError
                   | Dict kvs \<Rightarrow> Inl ValueError)
      | Num y \<Rightarrow> Inl ValueError
      | Frame b \<Rightarrow> Inl ValueError
      | Dict kvs \<Rightarrow> Inl ValueError)"

text \<open>\<^verbatim>\<open>(v == 0).all()\<close> for a one-dimensional array: exact equality with zero.\<close>

definition all_zero :: "pyval \<Rightarrow> bool result" where
  "all_zero v =
     (case v of
        Vec xs \<Rightarrow> Inr (list_all (\<lambda>x. x = 0) xs)
      | Num x \<Rightarrow> Inl AttributeError
      | Frame a \<Rightarrow> Inl TypeError
      | Dict kvs \<Rightarrow> Inl AttributeError)"

text \<open>
  The truth value of \<^verbatim>\<open>v == 0\<close> and of \<^verbatim>\<open>v != 0\<close> in a condition: a dictionary is
  never equal to a number, an array compared with a number has no single truth value.
\<close>

definition eq_zero :: "pyval \<Rightarrow> bool result" where
  "eq_zero v =
     (case v of
        Num x \<Rightarrow> Inr (x = 0)
      | Dict kvs \<Rightarrow> Inr False
      | Vec xs \<Rightarrow> Inl ValueError
      | Frame a \<Rightarrow> Inl ValueError)"

definition ne_zero :: "pyval \<Rightarrow> bool result" where
  "ne_zero v = bnd (eq_zero v) (\<lambda>b. Inr (\<not> b))"

text \<open>\<^verbatim>\<open>os.path.join\<close> of a path and a relative component.\<close>

definition path_join :: "string \<Rightarrow> string \<Rightarrow> string" where
  "path_join a b = (if a = [] then b else if last a = CHR ''/'' then a @ b else a @ ''/'' @ b)"

section \<open>Configuration\<close>

text \<open>
  The module constants. The properties below are stated with the no-op filter switched on
  and off and with date bounds that may be \<^verbatim>\<open>None\<close>, so the functions take the
  constants as a record; \<open>module_config\<close> holds the values the source file sets.
\<close>

record datetime =
  year :: nat
  month :: nat
  day :: nat
  hour :: nat
  minute :: nat
  second :: nat
  microsecond :: nat

text \<open>Comparison of two naive \<^verbatim>\<open>datetime\<close> objects: lexicographic on the seven fields.\<close>

fun lex_le :: "nat list \<Rightarrow> nat list \<Rightarrow> bool" where
  "lex_le [] ys = True"
| "lex_le (x # xs) [] = False"
| "lex_le (x # xs) (y # ys) = (x < y \<or> (x = y \<and> lex_le xs ys))"

definition datetime_fields :: "datetime \<Rightarrow> nat list" where
  "datetime_fields d = [year d, month d, day d, hour d, minute d, second d, microsecond d]"

definition datetime_le :: "datetime \<Rightarrow> datetime \<Rightarrow> bool" where
  "datetime_le a b = lex_le (datetime_fields a) (datetime_fields b)"

record config =
  LANGUAGE_INSTRUCTION :: string
  DATA_PATH :: string
  IMAGE_RES :: "nat \<times> nat"
  INITIAL_DATE :: "datetime option"
  FINAL_DATE :: "datetime option"
  FILTER_NO_OPS :: bool

definition module_config :: config where
  "module_config =
     \<lparr>LANGUAGE_INSTRUCTION = ''Fold the fabric into a triangle'',
      DATA_PATH = ''/home/panda/liris_droid/data/success'',
      IMAGE_RES = (360, 640),
      INITIAL_DATE = Some \<lparr>year = 2025, month = 3, day = 18, hour = 9, minute = 55,
                            second = 0, microsecond = 0\<rparr>,
      FINAL_DATE = Some \<lparr>year = 2025, month = 3, day = 18, hour = 11, minute = 0,
                          second = 0, microsecond = 0\<rparr>,
      FILTER_NO_OPS = True\<rparr>"

section \<open>The episode assembler\<close>

text \<open>The records of the output schema: one step and one sample.\<close>

record observation_rec =
  exterior_image_1_left :: ndarray3
  wrist_image_left :: ndarray3
  obs_cartesian_position :: pyval
  obs_joint_position :: pyval
  obs_gripper_position :: "real list"

record action_dict_rec =
  act_cartesian_position :: pyval
  act_cartesian_velocity :: pyval
  act_gripper_position :: "real list"
  act_gripper_velocity :: "real list"
  act_joint_position :: pyval
  act_joint_velocity :: pyval

record step =
  observation :: observation_rec
  action_dict :: action_dict_rec
  action :: "real list"
  discount :: real
  reward :: real
  is_first :: bool
  is_last :: bool
  is_terminal :: bool
  language_instruction :: string

record episode_metadata_rec =
  file_path :: string
  recording_folderpath :: string

record sample =
  steps :: "step list"
  episode_metadata :: episode_metadata_rec

text \<open>\<^verbatim>\<open>_resize_and_encode(image, size)\<close>.\<close>

definition resize_and_encode :: "pyval \<Rightarrow> nat \<times> nat \<Rightarrow> pyval result" where
  "resize_and_encode img sz =
     bnd (Image_fromarray img) (\<lambda>im.
     bnd (Image_resize im sz BICUBIC) (\<lambda>resized. Inr (Frame (np_array resized))))"

text \<open>
  \<^verbatim>\<open>assert all(t.keys() == data[0].keys() for t in data)\<close>: \<^verbatim>\<open>all\<close> stops at the first
  step whose keys differ; two key views are equal when they hold the same keys.
\<close>

fun all_same_keys :: "pyval \<Rightarrow> pyval list \<Rightarrow> bool result" where
  "all_same_keys d0 [] = Inr True"
| "all_same_keys d0 (t # ts) =
     bnd (keys_of t) (\<lambda>kt. bnd (keys_of d0) (\<lambda>k0.
       if set kt = set k0 then all_same_keys d0 ts else Inr False))"

definition assert_same_keys :: "pyval list \<Rightarrow> unit result" where
  "assert_same_keys data =
     (case data of
        [] \<Rightarrow> Inr ()
      | d0 # _ \<Rightarrow> bnd (all_same_keys d0 data) (\<lambda>ok. if ok then Inr () else Inl AssertionError))"

text \<open>
  The resizing loop. Its body,
  \<^verbatim>\<open>data[t]['observation']['image'][key] = _resize_and_encode(data[t]['observation']['image'][key], (IMAGE_RES[1], IMAGE_RES[0]))\<close>,
  reads the frame, resizes it and stores it under the same key of the same step. The
  keys are those of the first step's image dictionary, read again for every step; storing
  under an existing key does not change them. The steps returned by the loader are taken
  to be separate objects.
\<close>

definition resize_key :: "nat \<times> nat \<Rightarrow> pyval \<Rightarrow> string \<Rightarrow> pyval result" where
  "resize_key res stp key =
     bnd (getitem stp ''observation'') (\<lambda>obs.
     bnd (getitem obs ''image'') (\<lambda>img.
     bnd (getitem img key) (\<lambda>frame.
     bnd (resize_and_encode frame (snd res, fst res)) (\<lambda>frame'.
     bnd (setitem img key frame') (\<lambda>img'.
     bnd (setitem obs ''image'' img') (\<lambda>obs'.
     setitem stp ''observation'' obs'))))))"

definition image_keys :: "pyval \<Rightarrow> string list result" where
  "image_keys stp =
     bnd (getitem stp ''observation'') (\<lambda>obs. bnd (getitem obs ''image'') keys_of)"

definition resize_step :: "nat \<times> nat \<Rightarrow> string list \<Rightarrow> pyval \<Rightarrow> pyval result" where
  "resize_step res ks stp = foldM (resize_key res) stp ks"

definition resize_images :: "nat \<times> nat \<Rightarrow> pyval list \<Rightarrow> pyval list result" where
  "resize_images res data =
     (case data of
        [] \<Rightarrow> Inr []
      | d0 # _ \<Rightarrow> bnd (image_keys d0) (\<lambda>ks. mapM (resize_step res ks) data))"

text \<open>\<^verbatim>\<open>(step['action']['cartesian_velocity'] == 0).all()\<close>.\<close>

definition is_no_op :: "pyval \<Rightarrow> bool result" where
  "is_no_op stp =
     bnd (getitem stp ''action'') (\<lambda>act. bnd (getitem act ''cartesian_velocity'') all_zero)"

text \<open>The \<^verbatim>\<open>_left\<close> image of the first camera of a list of ids, channels reversed.\<close>

definition left_image :: "pyval \<Rightarrow> string list \<Rightarrow> ndarray3 result" where
  "left_image obs ids =
     bnd (getitem obs ''image'') (\<lambda>img.
     bnd (first ids) (\<lambda>cam.
     bnd (getitem img (cam @ ''_left'')) reverse_channels))"

definition make_observation :: "pyval \<Rightarrow> string list \<Rightarrow> string list \<Rightarrow> observation_rec result"
  where
  "make_observation obs wrist_ids exterior_ids =
     bnd (left_image obs exterior_ids) (\<lambda>ext.
     bnd (left_image obs wrist_ids) (\<lambda>wrist.
     bnd (getitem obs ''robot_state'') (\<lambda>rs1. bnd (getitem rs1 ''cartesian_position'') (\<lambda>cp.
     bnd (getitem obs ''robot_state'') (\<lambda>rs2. bnd (getitem rs2 ''joint_positions'') (\<lambda>jp.
     bnd (getitem obs ''robot_state'') (\<lambda>rs3. bnd (getitem rs3 ''gripper_position'') (\<lambda>gp.
     bnd (np_array1 gp) (\<lambda>gp1.
     Inr \<lparr>exterior_image_1_left = ext, wrist_image_left = wrist,
          obs_cartesian_position = cp, obs_joint_position = jp,
          obs_gripper_position = gp1\<rparr>)))))))))"

definition make_action_dict :: "pyval \<Rightarrow> action_dict_rec result" where
  "make_action_dict act =
     bnd (getitem act ''cartesian_position'') (\<lambda>cp.
     bnd (getitem act ''cartesian_velocity'') (\<lambda>cv.
     bnd (getitem act ''gripper_position'') (\<lambda>gp. bnd (np_array1 gp) (\<lambda>gp1.
     bnd (getitem act ''gripper_velocity'') (\<lambda>gv. bnd (np_array1 gv) (\<lambda>gv1.
     bnd (getitem act ''joint_position'') (\<lambda>jp.
     bnd (getitem act ''joint_velocity'') (\<lambda>jv.
     Inr \<lparr>act_cartesian_position = cp, act_cartesian_velocity = cv,
          act_gripper_position = gp1, act_gripper_velocity = gv1,
          act_joint_position = jp, act_joint_velocity = jv\<rparr>))))))))"

text \<open>The body of the episode loop for a step that is kept: the appended dictionary.\<close>

definition make_step :: "string \<Rightarrow> pyval \<Rightarrow> step result" where
  "make_step lang stp =
     bnd (getitem stp ''observation'') (\<lambda>obs.
     bnd (getitem stp ''action'') (\<lambda>act.
     bnd (getitem obs ''camera_type'') (\<lambda>camera_type_dict.
     bnd (items_of camera_type_dict) (\<lambda>cams.
     bnd (filterM (\<lambda>(k, v). eq_zero v) cams) (\<lambda>wrist.
     bnd (filterM (\<lambda>(k, v). ne_zero v) cams) (\<lambda>exterior.
     bnd (make_observation obs (map fst wrist) (map fst exterior)) (\<lambda>o'.
     bnd (make_action_dict act) (\<lambda>ad.
     bnd (getitem act ''cartesian_position'') (\<lambda>cp.
     bnd (getitem act ''gripper_position'') (\<lambda>gp.
     bnd (np_concatenate cp gp) (\<lambda>a.
     Inr \<lparr>observation = o', action_dict = ad, action = a, discount = 1, reward = 0,
          is_first = False, is_last = False, is_terminal = False,
          language_instruction = lang\<rparr>)))))))))))"

text \<open>
  \<^verbatim>\<open>for step in data\<close>: a step is passed over when the filter is on and its commanded
  cartesian velocity is zero everywhere (the velocity is not looked at when the
  filter is off), otherwise its dictionary is appended.
\<close>

fun assemble_steps :: "bool \<Rightarrow> string \<Rightarrow> pyval list \<Rightarrow> step list result" where
  "assemble_steps flt lang [] = Inr []"
| "assemble_steps flt lang (stp # rest) =
     bnd (if flt then is_no_op stp else Inr False) (\<lambda>skip.
       if skip then assemble_steps flt lang rest
       else bnd (make_step lang stp) (\<lambda>s.
            bnd (assemble_steps flt lang rest) (\<lambda>ss. Inr (s # ss))))"

text \<open>The four assignments after the loop.\<close>

definition mark_boundaries :: "step list \<Rightarrow> step list result" where
  "mark_boundaries episode =
     bnd (set_index episode 0 (\<lambda>s. s\<lparr>is_first := True\<rparr>)) (\<lambda>e1.
     bnd (set_index e1 (- 1) (\<lambda>s. s\<lparr>is_last := True\<rparr>)) (\<lambda>e2.
     bnd (set_index e2 (- 1) (\<lambda>s. s\<lparr>is_terminal := True\<rparr>)) (\<lambda>e3.
     set_index e3 (- 1) (\<lambda>s. s\<lparr>reward := 1\<rparr>))))"

text \<open>The body of the second \<^verbatim>\<open>try\<close>.\<close>

definition build_episode :: "config \<Rightarrow> pyval list \<Rightarrow> step list result" where
  "build_episode cfg data =
     bnd (assert_same_keys data) (\<lambda>_.
     bnd (resize_images (IMAGE_RES cfg) data) (\<lambda>data'.
     bnd (assemble_steps (FILTER_NO_OPS cfg) (LANGUAGE_INSTRUCTION cfg) data')
       mark_boundaries))"

definition msg_not_loaded :: "string \<Rightarrow> string" where
  "msg_not_loaded episode_path =
     ''Skipping trajectory because data couldn'' @ [CHR 0x27] @ ''t be loaded for ''
       @ episode_path @ ''.''"

definition msg_processing :: "string \<Rightarrow> string" where
  "msg_processing episode_path =
     ''Skipping trajectory because there was an error in data processing for ''
       @ episode_path @ ''.''"

text \<open>
  \<^verbatim>\<open>_parse_example(episode_path)\<close>. The trajectory loader is a parameter: it gets the
  log file and the recordings folder and returns the steps or raises. The result is the
  list of lines printed and the value returned (\<open>None\<close> for a skipped path). Both
  \<^verbatim>\<open>except\<close> clauses catch every exception.
\<close>

type_synonym loader = "string \<Rightarrow> string \<Rightarrow> pyval list result"

definition parse_example ::
  "config \<Rightarrow> loader \<Rightarrow> string \<Rightarrow> string list \<times> (string \<times> sample) option" where
  "parse_example cfg load_trajectory episode_path =
     (let h5_filepath = path_join episode_path ''trajectory.h5'';
          recording_folderpath = path_join (path_join episode_path ''recordings'') ''MP4''
      in case load_trajectory h5_filepath recording_folderpath of
           Inl e \<Rightarrow> ([msg_not_loaded episode_path], None)
         | Inr data \<Rightarrow>
             (case build_episode cfg data of
                Inl e \<Rightarrow> ([msg_processing episode_path], None)
              | Inr episode \<Rightarrow>
                  ([], Some (episode_path,
                     \<lparr>steps = episode,
                      episode_metadata = \<lparr>file_path = h5_filepath,
                        recording_folderpath = recording_folderpath\<rparr>\<rparr>))))"

text \<open>\<^verbatim>\<open>_generate_examples(paths)\<close>: one printed-lines/value pair per path, in order.\<close>

definition generate_examples ::
  "config \<Rightarrow> loader \<Rightarrow> string list \<Rightarrow> (string list \<times> (string \<times> sample) option) list" where
  "generate_examples cfg load_trajectory paths = map (parse_example cfg load_trajectory) paths"

section \<open>Path discovery and the date filter\<close>

text \<open>\<^verbatim>\<open>s.split(sep)\<close> for a separator of one character: never an empty list.\<close>

fun split_str :: "char \<Rightarrow> string \<Rightarrow> string list" where
  "split_str c [] = [[]]"
| "split_str c (x # xs) =
     (if x = c then [] # split_str c xs
      else (case split_str c xs of [] \<Rightarrow> [[x]] | w # ws \<Rightarrow> (x # w) # ws))"

definition date_format :: string where
  "date_format = ''%a_%b_%d_%H:%M:%S_%Y''"

text \<open>
  \<^verbatim>\<open>_split_paths\<close>. The crawler, \<^verbatim>\<open>os.path.exists\<close> and \<^verbatim>\<open>datetime.strptime\<close> are
  parameters; \<^verbatim>\<open>strptime\<close> raises on a name that does not match the format, and the
  exception leaves the function. A bound that is \<^verbatim>\<open>None\<close> is false in a condition, so
  its comprehension is not run.
\<close>

definition session_date ::
  "(string \<Rightarrow> string \<Rightarrow> datetime result) \<Rightarrow> string \<Rightarrow> datetime result" where
  "session_date strptime e = strptime (last (split_str CHR ''/'' e)) date_format"

definition split_paths ::
  "config \<Rightarrow> (string \<Rightarrow> string list) \<Rightarrow> (string \<Rightarrow> bool) \<Rightarrow>
   (string \<Rightarrow> string \<Rightarrow> datetime result) \<Rightarrow> (string \<times> string list) list result" where
  "split_paths cfg crawler exists strptime =
     (let episode_paths = crawler (DATA_PATH cfg);
          episode_paths1 =
            filter (\<lambda>p. exists (p @ ''/trajectory.h5'') \<and> exists (p @ ''/recordings/MP4''))
              episode_paths
      in bnd (case INITIAL_DATE cfg of
                None \<Rightarrow> Inr episode_paths1
              | Some d0 \<Rightarrow>
                  filterM (\<lambda>e. bnd (session_date strptime e) (\<lambda>d. Inr (datetime_le d0 d)))
                    episode_paths1) (\<lambda>episode_paths2.
         bnd (case FINAL_DATE cfg of
                None \<Rightarrow> Inr episode_paths2
              | Some d1 \<Rightarrow>
                  filterM (\<lambda>e. bnd (session_date strptime e) (\<lambda>d. Inr (datetime_le d d1)))
                    episode_paths2) (\<lambda>episode_paths3.
         Inr [(''train'', episode_paths3)])))"

text \<open>
  The file system as \<^verbatim>\<open>os.path.exists\<close> sees it: a path names a regular file, a
  directory, or nothing. \<^verbatim>\<open>os.path.exists\<close> holds for an entry of either kind.
\<close>

datatype fs_entry = RegularFile | Directory

type_synonym filesystem = "string \<Rightarrow> fs_entry option"

definition os_path_exists :: "filesystem \<Rightarrow> string \<Rightarrow> bool" where
  "os_path_exists fs p \<longleftrightarrow> fs p \<noteq> None"

section \<open>Notions used in the statements\<close>

text \<open>
  The commanded cartesian velocity of a raw step, and the raw steps in which it is a vector
  that is exactly zero in every component.
\<close>

definition commanded_velocity :: "pyval \<Rightarrow> pyval result" where
  "commanded_velocity stp =
     bnd (getitem stp ''action'') (\<lambda>act. getitem act ''cartesian_velocity'')"

definition zero_velocity :: "pyval \<Rightarrow> bool" where
  "zero_velocity stp =
     (case commanded_velocity stp of
        Inr (Vec vs) \<Rightarrow> list_all (\<lambda>x. x = 0) vs
      | _ \<Rightarrow> False)"

text \<open>
  An output step with the values the loop body gave its boundary flags and reward, and
  the raw step an output step was built from: the raw step's images under the keys \<open>ks\<close>
  are resized, the loop body builds the dictionary, and the flags may have been set
  afterwards.
\<close>

definition unmarked :: "step \<Rightarrow> step" where
  "unmarked s = s\<lparr>is_first := False, is_last := False, is_terminal := False, reward := 0\<rparr>"

definition built_from :: "config \<Rightarrow> string list \<Rightarrow> pyval \<Rightarrow> step \<Rightarrow> bool" where
  "built_from cfg ks raw s \<longleftrightarrow>
     bnd (resize_step (IMAGE_RES cfg) ks raw) (make_step (LANGUAGE_INSTRUCTION cfg))
       = Inr (unmarked s)"

text \<open>The set of keys of a dictionary, \<open>None\<close> for a value that has no keys.\<close>

definition key_set :: "pyval \<Rightarrow> string set option" where
  "key_set v = (case keys_of v of Inl e \<Rightarrow> None | Inr ks \<Rightarrow> Some (set ks))"

definition observation_keys :: "pyval \<Rightarrow> string set option" where
  "observation_keys stp =
     (case getitem stp ''observation'' of Inl e \<Rightarrow> None | Inr obs \<Rightarrow> key_set obs)"

text \<open>
  The image dictionary and the camera types of a raw step, and a three-channel frame.
\<close>

definition image_dict :: "pyval \<Rightarrow> (string \<times> pyval) list result" where
  "image_dict stp =
     bnd (getitem stp ''observation'') (\<lambda>obs. bnd (getitem obs ''image'') items_of)"

definition camera_types :: "pyval \<Rightarrow> (string \<times> pyval) list result" where
  "camera_types stp =
     bnd (getitem stp ''observation'') (\<lambda>obs. bnd (getitem obs ''camera_type'') items_of)"

definition is_rgb_frame :: "pyval \<Rightarrow> bool" where
  "is_rgb_frame v = (case v of Frame a \<Rightarrow> channels a = 3 | _ \<Rightarrow> False)"

text \<open>
  The two image keys the loop body reads for a step: the \<^verbatim>\<open>_left\<close> image of the first
  camera whose type code is not 0 and of the first camera whose type code is 0, in the
  order of the step's \<^verbatim>\<open>camera_type\<close> dictionary.
\<close>

definition selected_image_keys :: "pyval \<Rightarrow> string list result" where
  "selected_image_keys stp =
     bnd (camera_types stp) (\<lambda>cams.
     bnd (filterM (\<lambda>(k, v). eq_zero v) cams) (\<lambda>wrist.
     bnd (filterM (\<lambda>(k, v). ne_zero v) cams) (\<lambda>exterior.
     bnd (first (map fst exterior)) (\<lambda>ce.
     bnd (first (map fst wrist)) (\<lambda>cw.
     Inr [ce @ ''_left'', cw @ ''_left''])))))"

text \<open>
  The raw steps whose two selected images are three-channel frames stored under keys
  that are among \<open>ks\<close>, the keys the resizing loop runs over.
\<close>

definition selected_frames_resizable :: "string list \<Rightarrow> pyval \<Rightarrow> bool" where
  "selected_frames_resizable ks raw =
     (case selected_image_keys raw of
        Inl e \<Rightarrow> False
      | Inr sel \<Rightarrow>
          (case image_dict raw of
             Inl e \<Rightarrow> False
           | Inr img \<Rightarrow>
               list_all (\<lambda>k. k \<in> set ks \<and>
                             (case map_of img k of None \<Rightarrow> False | Some v \<Rightarrow> is_rgb_frame v))
                 sel))"

text \<open>
  A frame as the resizing loop leaves it, given three channels, and an image as the loop
  body emits it: the configured (height, width), three channels, 8-bit unsigned entries,
  and pixels that come from a bicubic resampling to (width, height), channels reversed
  afterwards.
\<close>

definition resized_frame :: "nat \<times> nat \<Rightarrow> pyval \<Rightarrow> bool" where
  "resized_frame res v =
     (case v of
        Frame a \<Rightarrow>
          shape a = (fst res, snd res, 3) \<and> dtype a = UInt8 \<and>
          (case pixels a of
             Resampled rs sz px \<Rightarrow> rs = BICUBIC \<and> sz = (snd res, fst res)
           | _ \<Rightarrow> False)
      | _ \<Rightarrow> False)"

definition emitted_image :: "nat \<times> nat \<Rightarrow> ndarray3 \<Rightarrow> bool" where
  "emitted_image res im =
     (shape im = (fst res, snd res, 3) \<and> dtype im = UInt8 \<and>
      (case pixels im of
         ChannelsReversed (Resampled rs sz px) \<Rightarrow> rs = BICUBIC \<and> sz = (snd res, fst res)
       | _ \<Rightarrow> False))"

text \<open>
  A moment of the 18th of March 2025, and the paths whose session name lies within the
  configured bounds: a bound that is \<^verbatim>\<open>None\<close> does not restrict.
\<close>

definition mar18 :: "nat \<Rightarrow> nat \<Rightarrow> nat \<Rightarrow> datetime" where
  "mar18 h m sec =
     \<lparr>year = 2025, month = 3, day = 18, hour = h, minute = m, second = sec,
      microsecond = 0\<rparr>"

definition in_date_range ::
  "config \<Rightarrow> (string \<Rightarrow> string \<Rightarrow> datetime result) \<Rightarrow> string \<Rightarrow> bool" where
  "in_date_range cfg strptime e \<longleftrightarrow>
     (case INITIAL_DATE cfg of
        None \<Rightarrow> True
      | Some d0 \<Rightarrow> (case session_date strptime e of Inl err \<Rightarrow> False
                    | Inr d \<Rightarrow> datetime_le d0 d)) \<and>
     (case FINAL_DATE cfg of
        None \<Rightarrow> True
      | Some d1 \<Rightarrow> (case session_date strptime e of Inl err \<Rightarrow> False
                    | Inr d \<Rightarrow> datetime_le d d1))"

section \<open>Sample trajectories\<close>

text \<open>
  Concrete loader results on which the theorems below are instantiated: two cameras (the
  wrist camera has type code 0), frames of two different sizes, and steps that differ in
  their commanded cartesian velocity.
\<close>

definition demo_frame :: "nat \<Rightarrow> nat \<Rightarrow> nat \<Rightarrow> pyval" where
  "demo_frame h w n =
     Frame \<lparr>height = h, width = w, channels = 3, dtype = UInt8, pixels = Decoded n\<rparr>"

definition demo_observation :: "nat \<Rightarrow> (string \<times> pyval) list \<Rightarrow> pyval" where
  "demo_observation n extra =
     Dict ([(''image'', Dict [(''18026681_left'', demo_frame 720 1280 (2 * n)),
                              (''22008760_left'', demo_frame 480 640 (2 * n + 1))]),
            (''camera_type'', Dict [(''18026681'', Num 0), (''22008760'', Num 1)]),
            (''robot_state'', Dict [(''cartesian_position'', Vec [0, 0, 0, 0, 0, 0]),
                                    (''joint_positions'', Vec [0, 0, 0, 0, 0, 0, 0]),
                                    (''gripper_position'', Num 0)])] @ extra)"

definition demo_action :: "real list \<Rightarrow> pyval" where
  "demo_action v =
     Dict [(''cartesian_position'', Vec [1, 2, 3, 4, 5, 6]),
           (''cartesian_velocity'', Vec v),
           (''gripper_position'', Num 7),
           (''gripper_velocity'', Num 0),
           (''joint_position'', Vec [0, 0, 0, 0, 0, 0, 0]),
           (''joint_velocity'', Vec [0, 0, 0, 0, 0, 0, 0])]"

definition demo_step :: "nat \<Rightarrow> real list \<Rightarrow> pyval" where
  "demo_step n v = Dict [(''observation'', demo_observation n []), (''action'', demo_action v)]"

text \<open>Three steps, the second without any commanded motion.\<close>

definition demo_data :: "pyval list" where
  "demo_data =
     [demo_step 0 [1, 0, 0, 0, 0, 0], demo_step 1 [0, 0, 0, 0, 0, 0],
      demo_step 2 [0, 0, 0, 0, 0, 2]]"

text \<open>Two steps of which only the second moves.\<close>

definition demo_data_short :: "pyval list" where
  "demo_data_short = [demo_step 0 [0, 0, 0, 0, 0, 0], demo_step 1 [0, 3, 0, 0, 0, 0]]"

text \<open>Two steps that command no motion at all.\<close>

definition demo_data_idle :: "pyval list" where
  "demo_data_idle = [demo_step 0 [0, 0, 0, 0, 0, 0], demo_step 1 [0, 0, 0, 0, 0, 0]]"

text \<open>
  Two moving steps with the same top-level keys; the observation of the second has one
  key more than that of the first.
\<close>

definition demo_data_odd :: "pyval list" where
  "demo_data_odd =
     [demo_step 0 [1, 0, 0, 0, 0, 0],
      Dict [(''observation'', demo_observation 1 [(''timestamp'', Num 5)]),
            (''action'', demo_action [0, 1, 0, 0, 0, 0])]]"

text \<open>Two moving steps of which the second has a top-level key more.\<close>

definition demo_data_mixed :: "pyval list" where
  "demo_data_mixed =
     [demo_step 0 [1, 0, 0, 0, 0, 0],
      Dict [(''observation'', demo_observation 1 []),
            (''action'', demo_action [0, 1, 0, 0, 0, 0]),
            (''timestamp'', Num 5)]]"

definition demo_path :: string where
  "demo_path = ''/data/success/Tue_Mar_18_10:00:00_2025''"

definition demo_path_short :: string where
  "demo_path_short = ''/data/success/Tue_Mar_18_10:30:00_2025''"

definition demo_path_idle :: string where
  "demo_path_idle = ''/data/success/Tue_Mar_18_10:40:00_2025''"

definition demo_path_odd :: string where
  "demo_path_odd = ''/data/success/Tue_Mar_18_10:45:00_2025''"

definition demo_path_mixed :: string where
  "demo_path_mixed = ''/data/success/Tue_Mar_18_10:50:00_2025''"

definition demo_path_broken :: string where
  "demo_path_broken = ''/data/success/Tue_Mar_18_10:55:00_2025''"

text \<open>A loader that knows five recordings and fails to open any other.\<close>

definition demo_loader :: loader where
  "demo_loader h5 mp4 =
     (case map_of
        [(demo_path @ ''/trajectory.h5'', demo_data),
         (demo_path_short @ ''/trajectory.h5'', demo_data_short),
         (demo_path_idle @ ''/trajectory.h5'', demo_data_idle),
         (demo_path_odd @ ''/trajectory.h5'', demo_data_odd),
         (demo_path_mixed @ ''/trajectory.h5'', demo_data_mixed)] h5 of
        None \<Rightarrow> Inl OSError
      | Some data \<Rightarrow> Inr data)"

text \<open>The same loader with the sixth recording readable.\<close>

definition demo_loader_repaired :: loader where
  "demo_loader_repaired h5 mp4 =
     (if h5 = demo_path_broken @ ''/trajectory.h5'' then Inr demo_data
      else demo_loader h5 mp4)"

definition unfiltered_config :: config where
  "unfiltered_config = module_config\<lparr>FILTER_NO_OPS := False\<rparr>"

definition demo_sample :: sample where
  "demo_sample = snd (the (snd (parse_example module_config demo_loader demo_path)))"

definition demo_sample_short :: sample where
  "demo_sample_short =
     snd (the (snd (parse_example module_config demo_loader demo_path_short)))"

definition demo_sample_unfiltered :: sample where
  "demo_sample_unfiltered =
     snd (the (snd (parse_example unfiltered_config demo_loader demo_path)))"

definition demo_keys :: "string list" where
  "demo_keys = [''18026681_left'', ''22008760_left'']"

text \<open>
  A data directory with six session folders. The fourth has a log file and no recordings
  folder; \<open>demo_strptime\<close> lists what \<^verbatim>\<open>strptime\<close> returns for the six names.
\<close>

definition demo_sessions :: "string list" where
  "demo_sessions =
     [''Tue_Mar_18_10:00:00_2025'', ''Tue_Mar_18_08:00:00_2025'',
      ''Tue_Mar_18_11:00:00_2025'', ''Tue_Mar_18_10:20:00_2025'',
      ''Tue_Mar_18_11:00:01_2025'', ''Tue_Mar_18_09:55:00_2025'']"

definition demo_crawler :: "string \<Rightarrow> string list" where
  "demo_crawler data_path = map (\<lambda>n. data_path @ ''/'' @ n) demo_sessions"

definition demo_exists :: "string \<Rightarrow> bool" where
  "demo_exists f \<longleftrightarrow>
     List.member
       (concat (map (\<lambda>n. [DATA_PATH module_config @ ''/'' @ n @ ''/trajectory.h5'',
                            DATA_PATH module_config @ ''/'' @ n @ ''/recordings/MP4''])
                  (filter (\<lambda>n. n \<noteq> ''Tue_Mar_18_10:20:00_2025'') demo_sessions))
        @ [DATA_PATH module_config @ ''/Tue_Mar_18_10:20:00_2025/trajectory.h5'']) f"

definition demo_strptime :: "string \<Rightarrow> string \<Rightarrow> datetime result" where
  "demo_strptime name fmt =
     (if fmt \<noteq> date_format then Inl ValueError
      else case map_of
          [(''Tue_Mar_18_10:00:00_2025'', mar18 10 0 0),
           (''Tue_Mar_18_08:00:00_2025'', mar18 8 0 0),
           (''Tue_Mar_18_11:00:00_2025'', mar18 11 0 0),
           (''Tue_Mar_18_10:20:00_2025'', mar18 10 20 0),
           (''Tue_Mar_18_11:00:01_2025'', mar18 11 0 1),
           (''Tue_Mar_18_09:55:00_2025'', mar18 9 55 0)] name of
        None \<Rightarrow> Inl ValueError
      | Some d \<Rightarrow> Inr d)"

definition demo_session_path :: "string \<Rightarrow> string" where
  "demo_session_path n = DATA_PATH module_config @ ''/'' @ n"

definition open_config :: config where
  "open_config = module_config\<lparr>INITIAL_DATE := None, FINAL_DATE := None\<rparr>"

text \<open>
  Two moving steps. The second has a third camera, an exterior one that comes first in
  its \<^verbatim>\<open>camera_type\<close> dictionary; the first step has no image under that camera's key.
\<close>

definition demo_data_third_camera :: "pyval list" where
  "demo_data_third_camera =
     [demo_step 0 [1, 0, 0, 0, 0, 0],
      Dict [(''observation'',
             Dict [(''image'', Dict [(''18026681_left'', demo_frame 720 1280 2),
                                     (''22008760_left'', demo_frame 480 640 3),
                                     (''31177322_left'', demo_frame 1080 1920 4)]),
                   (''camera_type'', Dict [(''31177322'', Num 1), (''18026681'', Num 0),
                                           (''22008760'', Num 1)]),
                   (''robot_state'', Dict [(''cartesian_position'', Vec [0, 0, 0, 0, 0, 0]),
                                           (''joint_positions'', Vec [0, 0, 0, 0, 0, 0, 0]),
                                           (''gripper_position'', Num 0)])]),
            (''action'', demo_action [0, 1, 0, 0, 0, 0])]]"

text \<open>One moving step whose two frames have four channels.\<close>

definition demo_frame4 :: "nat \<Rightarrow> nat \<Rightarrow> nat \<Rightarrow> pyval" where
  "demo_frame4 h w n =
     Frame \<lparr>height = h, width = w, channels = 4, dtype = UInt8, pixels = Decoded n\<rparr>"

definition demo_data_four_channels :: "pyval list" where
  "demo_data_four_channels =
     [Dict [(''observation'',
             Dict [(''image'', Dict [(''18026681_left'', demo_frame4 720 1280 0),
                                     (''22008760_left'', demo_frame4 720 1280 1)]),
                   (''camera_type'', Dict [(''18026681'', Num 0), (''22008760'', Num 1)]),
                   (''robot_state'', Dict [(''cartesian_position'', Vec [0, 0, 0, 0, 0, 0]),
                                           (''joint_positions'', Vec [0, 0, 0, 0, 0, 0, 0]),
                                           (''gripper_position'', Num 0)])]),
            (''action'', demo_action [0, 1, 0, 0, 0, 0])]]"

definition demo_path_third_camera :: string where
  "demo_path_third_camera = ''/data/success/Tue_Mar_18_10:05:00_2025''"

definition demo_path_four_channels :: string where
  "demo_path_four_channels = ''/data/success/Tue_Mar_18_10:15:00_2025''"

definition demo_loader_cameras :: loader where
  "demo_loader_cameras h5 mp4 =
     (case map_of
        [(demo_path @ ''/trajectory.h5'', demo_data),
         (demo_path_third_camera @ ''/trajectory.h5'', demo_data_third_camera),
         (demo_path_four_channels @ ''/trajectory.h5'', demo_data_four_channels)] h5 of
        None \<Rightarrow> Inl OSError
      | Some data \<Rightarrow> Inr data)"

definition demo_sample_third_camera :: sample where
  "demo_sample_third_camera =
     snd (the (snd (parse_example module_config demo_loader_cameras demo_path_third_camera)))"

definition demo_sample_four_channels :: sample where
  "demo_sample_four_channels =
     snd (the (snd (parse_example module_config demo_loader_cameras demo_path_four_channels)))"

text \<open>
  A data directory with three session folders: one with a log file and a recordings
  folder, one with a log file and no \<^verbatim>\<open>recordings/MP4\<close>, and one in which
  \<^verbatim>\<open>trajectory.h5\<close> is a directory and \<^verbatim>\<open>recordings/MP4\<close> a regular file.
\<close>

definition kinds_regular :: string where
  "kinds_regular = ''/data/Tue_Mar_18_10:00:00_2025''"

definition kinds_no_recordings :: string where
  "kinds_no_recordings = ''/data/Tue_Mar_18_10:20:00_2025''"

definition kinds_swapped :: string where
  "kinds_swapped = ''/data/Tue_Mar_18_10:10:00_2025''"

definition kinds_crawler :: "string \<Rightarrow> string list" where
  "kinds_crawler data_path = [kinds_regular, kinds_no_recordings, kinds_swapped]"

definition kinds_fs :: filesystem where
  "kinds_fs =
     map_of
       [(kinds_regular, Directory),
        (kinds_regular @ ''/trajectory.h5'', RegularFile),
        (kinds_regular @ ''/recordings'', Directory),
        (kinds_regular @ ''/recordings/MP4'', Directory),
        (kinds_no_recordings, Directory),
        (kinds_no_recordings @ ''/trajectory.h5'', RegularFile),
        (kinds_swapped, Directory),
        (kinds_swapped @ ''/trajectory.h5'', Directory),
        (kinds_swapped @ ''/recordings'', Directory),
        (kinds_swapped @ ''/recordings/MP4'', RegularFile)]"

definition kinds_strptime :: "string \<Rightarrow> string \<Rightarrow> datetime result" where
  "kinds_strptime name fmt =
     (if fmt \<noteq> date_format then Inl ValueError
      else case map_of
          [(''Tue_Mar_18_10:00:00_2025'', mar18 10 0 0),
           (''Tue_Mar_18_10:20:00_2025'', mar18 10 20 0),
           (''Tue_Mar_18_10:10:00_2025'', mar18 10 10 0)] name of
        None \<Rightarrow> Inl ValueError
      | Some d \<Rightarrow> Inr d)"

section \<open>Auxiliary facts\<close>

lemma bnd_Inr_iff: "bnd m f = Inr y \<longleftrightarrow> (\<exists>x. m = Inr x \<and> f x = Inr y)"
  by (cases m) (simp_all add: bnd_def)

lemma bnd_simps [simp]: "bnd (Inr x) f = f x" "bnd (Inl e) f = Inl e"
  by (simp_all add: bnd_def)

lemma set_index_first:
  "set_index xs 0 f = (if xs = [] then Inl IndexError else Inr (xs[0 := f (xs ! 0)]))"
  by (simp add: set_index_def)

lemma set_index_last:
  "set_index xs (- 1) f =
     (if xs = [] then Inl IndexError else Inr (xs[length xs - 1 := f (xs ! (length xs - 1))]))"
proof (cases xs)
  case Nil
  then show ?thesis by (simp add: set_index_def)
next
  case (Cons x xs')
  have "nat (int (length xs) + - 1) = length xs - 1" by simp
  with Cons show ?thesis by (simp add: set_index_def)
qed

lemma mark_boundaries_Nil: "mark_boundaries [] = Inl IndexError"
  by (simp add: mark_boundaries_def set_index_first)

lemma mark_boundaries_Inr:
  assumes "ep \<noteq> []"
  shows "mark_boundaries ep =
     Inr (ep[0 := (ep ! 0)\<lparr>is_first := True\<rparr>,
             length ep - 1 := ((ep[0 := (ep ! 0)\<lparr>is_first := True\<rparr>]) ! (length ep - 1))
                \<lparr>is_last := True, is_terminal := True, reward := 1\<rparr>])"
  using assms by (simp add: mark_boundaries_def set_index_first set_index_last)

lemma mark_boundaries_length:
  "mark_boundaries ep = Inr ep' \<Longrightarrow> ep \<noteq> [] \<and> length ep' = length ep"
  by (cases "ep = []") (auto simp: mark_boundaries_Nil mark_boundaries_Inr)

lemma mark_boundaries_nth:
  assumes "mark_boundaries ep = Inr ep'" and "i < length ep"
  shows "ep' ! i = (ep ! i)\<lparr>is_first := (i = 0 \<or> is_first (ep ! i)),
                            is_last := (i = length ep - 1 \<or> is_last (ep ! i)),
                            is_terminal := (i = length ep - 1 \<or> is_terminal (ep ! i)),
                            reward := (if i = length ep - 1 then 1 else reward (ep ! i))\<rparr>"
proof -
  from assms have ne: "ep \<noteq> []" by auto
  from assms(1) mark_boundaries_Inr [OF ne]
  have ep': "ep' = ep[0 := (ep ! 0)\<lparr>is_first := True\<rparr>,
             length ep - 1 := ((ep[0 := (ep ! 0)\<lparr>is_first := True\<rparr>]) ! (length ep - 1))
                \<lparr>is_last := True, is_terminal := True, reward := 1\<rparr>]"
    by simp
  show ?thesis
  proof (cases "i = length ep - 1")
    case True
    with assms(2) show ?thesis unfolding ep' by (cases "i = 0") (simp_all add: nth_list_update)
  next
    case False
    with assms(2) show ?thesis unfolding ep' by (cases "i = 0") (simp_all add: nth_list_update)
  qed
qed

lemma make_step_flags:
  "make_step lang stp = Inr s \<Longrightarrow>
     \<not> is_first s \<and> \<not> is_last s \<and> \<not> is_terminal s \<and> reward s = 0"
  by (auto simp: make_step_def bnd_Inr_iff)

lemma assemble_steps_flags:
  "assemble_steps flt lang data = Inr ss \<Longrightarrow> s \<in> set ss \<Longrightarrow>
     \<not> is_first s \<and> \<not> is_last s \<and> \<not> is_terminal s \<and> reward s = 0"
proof (induction data arbitrary: ss)
  case Nil
  then show ?case by simp
next
  case (Cons stp rest)
  then show ?case
    by (auto simp: bnd_Inr_iff split: if_splits dest: make_step_flags)
qed

lemma parse_example_Some:
  assumes "parse_example cfg load_trajectory p = (out, Some (k, smp))"
  obtains data where
    "load_trajectory (path_join p ''trajectory.h5'')
        (path_join (path_join p ''recordings'') ''MP4'') = Inr data"
    "build_episode cfg data = Inr (steps smp)" "k = p" "out = []"
  using assms by (auto simp: parse_example_def Let_def split: sum.splits)

lemma build_episode_Inr:
  assumes "build_episode cfg data = Inr ep"
  obtains data' ss where
    "assert_same_keys data = Inr ()"
    "resize_images (IMAGE_RES cfg) data = Inr data'"
    "assemble_steps (FILTER_NO_OPS cfg) (LANGUAGE_INSTRUCTION cfg) data' = Inr ss"
    "mark_boundaries ss = Inr ep"
  using assms by (auto simp: build_episode_def bnd_Inr_iff)

text \<open>
  What the four assignments leave in an emitted episode: every step is the appended
  dictionary with its flags and reward overwritten according to its position.
\<close>

lemma emitted_flags:
  assumes "parse_example cfg load_trajectory p = (out, Some (k, smp))"
    and "i < length (steps smp)"
  shows "(is_first (steps smp ! i) \<longleftrightarrow> i = 0) \<and>
         (is_last (steps smp ! i) \<longleftrightarrow> i = length (steps smp) - 1) \<and>
         (is_terminal (steps smp ! i) \<longleftrightarrow> i = length (steps smp) - 1) \<and>
         reward (steps smp ! i) = (if i = length (steps smp) - 1 then 1 else 0)"
proof -
  from assms(1) obtain data where "build_episode cfg data = Inr (steps smp)"
    by (rule parse_example_Some)
  then obtain data' ss where
    as: "assemble_steps (FILTER_NO_OPS cfg) (LANGUAGE_INSTRUCTION cfg) data' = Inr ss"
    and mb: "mark_boundaries ss = Inr (steps smp)"
    by (rule build_episode_Inr)
  from mb have len: "length (steps smp) = length ss"
    by (simp add: mark_boundaries_length)
  with assms(2) have i: "i < length ss" by simp
  then have "ss ! i \<in> set ss" by simp
  from assemble_steps_flags [OF as this] mark_boundaries_nth [OF mb i] len
  show ?thesis by simp
qed

lemma emitted_nonempty:
  assumes "parse_example cfg load_trajectory p = (out, Some (k, smp))"
  shows "steps smp \<noteq> []"
proof -
  from assms obtain data where "build_episode cfg data = Inr (steps smp)"
    by (rule parse_example_Some)
  then obtain ss where "mark_boundaries ss = Inr (steps smp)"
    by (rule build_episode_Inr)
  then have "ss \<noteq> []" "length (steps smp) = length ss"
    by (simp_all add: mark_boundaries_length)
  then show ?thesis by auto
qed

lemma demo_emitted:
  "parse_example module_config demo_loader demo_path = ([], Some (demo_path, demo_sample))"
  by code_simp

lemma demo_short_emitted:
  "parse_example module_config demo_loader demo_path_short =
     ([], Some (demo_path_short, demo_sample_short))"
  by code_simp

lemma mapM_Inr:
  "mapM f xs = Inr ys \<Longrightarrow> list_all2 (\<lambda>x y. f x = Inr y) xs ys"
  by (induction xs arbitrary: ys) (auto simp: bnd_Inr_iff)

lemma resize_images_Inr:
  assumes "resize_images res data = Inr data'" and "data \<noteq> []"
  obtains ks where "image_keys (hd data) = Inr ks"
    "list_all2 (\<lambda>raw raw'. resize_step res ks raw = Inr raw') data data'"
  using assms
  by (cases data) (auto simp: resize_images_def bnd_Inr_iff dest: mapM_Inr)

lemma resize_images_Nil: "resize_images res [] = Inr []"
  by (simp add: resize_images_def)

lemma getitem_setitem_other:
  "setitem d k v = Inr d' \<Longrightarrow> k' \<noteq> k \<Longrightarrow> getitem d' k' = getitem d k'"
  by (cases d) (auto simp: update_conv')

lemma resize_key_action:
  "resize_key res stp key = Inr stp' \<Longrightarrow> getitem stp' ''action'' = getitem stp ''action''"
  by (auto simp: resize_key_def bnd_Inr_iff dest!: getitem_setitem_other [where k' = "''action''"])

lemma resize_step_action:
  "resize_step res ks stp = Inr stp' \<Longrightarrow> getitem stp' ''action'' = getitem stp ''action''"
  unfolding resize_step_def
  by (induction ks arbitrary: stp) (auto simp: bnd_Inr_iff dest: resize_key_action)

lemma is_no_op_zero_velocity: "is_no_op stp = Inr True \<longleftrightarrow> zero_velocity stp"
  by (auto simp: is_no_op_def zero_velocity_def commanded_velocity_def all_zero_def bnd_def
      split: sum.splits pyval.splits)

lemma zero_velocity_resize_step:
  "resize_step res ks stp = Inr stp' \<Longrightarrow> zero_velocity stp' = zero_velocity stp"
  by (simp add: zero_velocity_def commanded_velocity_def resize_step_action)

lemma assemble_steps_filter:
  "assemble_steps flt lang data = Inr ss \<Longrightarrow>
     list_all2 (\<lambda>raw s. make_step lang raw = Inr s)
       (filter (\<lambda>raw. \<not> (flt \<and> zero_velocity raw)) data) ss"
proof (induction data arbitrary: ss)
  case Nil
  then show ?case by simp
next
  case (Cons stp rest)
  show ?case
  proof (cases "flt \<and> zero_velocity stp")
    case True
    then have "is_no_op stp = Inr True" by (simp add: is_no_op_zero_velocity)
    with True Cons show ?thesis by simp
  next
    case False
    with Cons.prems obtain s ss' where "make_step lang stp = Inr s"
      "assemble_steps flt lang rest = Inr ss'" "ss = s # ss'"
      by (auto simp: bnd_Inr_iff is_no_op_zero_velocity split: if_splits)
    with False Cons.IH show ?thesis by auto
  qed
qed

lemma list_all2_right:
  "list_all2 R xs ys \<Longrightarrow> y \<in> set ys \<Longrightarrow> \<exists>x\<in>set xs. R x y"
  by (induction rule: list_all2_induct) auto

lemma list_all2_filter:
  "list_all2 R xs ys \<Longrightarrow> (\<And>x y. R x y \<Longrightarrow> P x = Q y) \<Longrightarrow>
     list_all2 R (filter P xs) (filter Q ys)"
  by (induction rule: list_all2_induct) auto

lemma unmarked_mark:
  assumes "\<not> is_first s \<and> \<not> is_last s \<and> \<not> is_terminal s \<and> reward s = 0"
  shows "unmarked (s\<lparr>is_first := a, is_last := b, is_terminal := c, reward := d\<rparr>) = s"
  using assms by (simp add: unmarked_def)

lemma mark_boundaries_unmarked:
  assumes mb: "mark_boundaries ss = Inr ep"
    and fl: "\<forall>s\<in>set ss. \<not> is_first s \<and> \<not> is_last s \<and> \<not> is_terminal s \<and> reward s = 0"
  shows "list_all2 (\<lambda>s0 s. unmarked s = s0) ss ep"
proof (rule list_all2_all_nthI)
  from mb show "length ss = length ep" by (simp add: mark_boundaries_length)
next
  fix i assume i: "i < length ss"
  with fl have "\<not> is_first (ss ! i) \<and> \<not> is_last (ss ! i) \<and> \<not> is_terminal (ss ! i)
     \<and> reward (ss ! i) = 0" by simp
  from unmarked_mark [OF this] mark_boundaries_nth [OF mb i]
  show "unmarked (ep ! i) = ss ! i" by simp
qed

text \<open>The whole pipeline of an emitted episode, step by step.\<close>

lemma build_episode_steps:
  assumes "build_episode cfg data = Inr ep"
  obtains ks where "data \<noteq> []" "ep \<noteq> []" "image_keys (hd data) = Inr ks"
    "list_all2 (built_from cfg ks)
       (filter (\<lambda>raw. \<not> (FILTER_NO_OPS cfg \<and> zero_velocity raw)) data) ep"
proof -
  from assms obtain data' ss where
    rs: "resize_images (IMAGE_RES cfg) data = Inr data'"
    and as: "assemble_steps (FILTER_NO_OPS cfg) (LANGUAGE_INSTRUCTION cfg) data' = Inr ss"
    and mb: "mark_boundaries ss = Inr ep"
    by (rule build_episode_Inr)
  from mb have ss: "ss \<noteq> []" and len: "length ep = length ss"
    by (simp_all add: mark_boundaries_length)
  then have ep: "ep \<noteq> []" by auto
  have ne: "data \<noteq> []"
  proof
    assume "data = []"
    with rs have "data' = []" by (simp add: resize_images_Nil)
    with as ss show False by simp
  qed
  from rs ne obtain ks where ks: "image_keys (hd data) = Inr ks"
    and r: "list_all2 (\<lambda>raw raw'. resize_step (IMAGE_RES cfg) ks raw = Inr raw') data data'"
    by (rule resize_images_Inr)
  let ?P = "\<lambda>raw. \<not> (FILTER_NO_OPS cfg \<and> zero_velocity raw)"
  from r have 1: "list_all2 (\<lambda>raw raw'. resize_step (IMAGE_RES cfg) ks raw = Inr raw')
      (filter ?P data) (filter ?P data')"
    by (rule list_all2_filter) (simp add: zero_velocity_resize_step)
  from as have 2: "list_all2 (\<lambda>raw s. make_step (LANGUAGE_INSTRUCTION cfg) raw = Inr s)
      (filter ?P data') ss"
    by (rule assemble_steps_filter)
  from mb assemble_steps_flags [OF as]
  have 3: "list_all2 (\<lambda>s0 s. unmarked s = s0) ss ep"
    by (intro mark_boundaries_unmarked) auto
  have "list_all2 (built_from cfg ks) (filter ?P data) ep"
  proof (rule list_all2_all_nthI)
    from 1 2 3 show "length (filter ?P data) = length ep"
      by (simp add: list_all2_lengthD)
  next
    fix i assume i: "i < length (filter ?P data)"
    with 1 have a: "resize_step (IMAGE_RES cfg) ks (filter ?P data ! i) = Inr (filter ?P data' ! i)"
      by (simp add: list_all2_conv_all_nth)
    from i 1 2 have b: "make_step (LANGUAGE_INSTRUCTION cfg) (filter ?P data' ! i) = Inr (ss ! i)"
      by (simp add: list_all2_conv_all_nth)
    from i 1 2 3 have c: "unmarked (ep ! i) = ss ! i"
      by (simp add: list_all2_conv_all_nth)
    from a b c show "built_from cfg ks (filter ?P data ! i) (ep ! i)"
      by (simp add: built_from_def)
  qed
  with ne ep ks show ?thesis by (rule that)
qed

lemma make_step_action:
  assumes "make_step lang stp = Inr s"
  shows "\<exists>cp g. act_cartesian_position (action_dict s) = Vec cp \<and>
           act_gripper_position (action_dict s) = [g] \<and> action s = cp @ [g]"
proof -
  from assms obtain act ad cp gp where
    ad: "make_action_dict act = Inr ad" and cp: "getitem act ''cartesian_position'' = Inr cp"
    and gp: "getitem act ''gripper_position'' = Inr gp"
    and a: "np_concatenate cp gp = Inr (action s)" and s: "action_dict s = ad"
    by (auto simp: make_step_def bnd_Inr_iff)
  from a obtain xs g where "cp = Vec xs" "gp = Num g" "action s = xs @ [g]"
    by (auto simp: np_concatenate_def split: pyval.splits)
  with ad cp gp have "act_cartesian_position ad = Vec xs \<and> act_gripper_position ad = [g]"
    by (auto simp: make_action_dict_def bnd_Inr_iff np_array1_def)
  with s \<open>action s = xs @ [g]\<close> show ?thesis by auto
qed

lemma built_from_action:
  assumes "built_from cfg ks raw s"
  shows "\<exists>cp g. act_cartesian_position (action_dict s) = Vec cp \<and>
           act_gripper_position (action_dict s) = [g] \<and> action s = cp @ [g]"
proof -
  from assms obtain raw' where "make_step (LANGUAGE_INSTRUCTION cfg) raw' = Inr (unmarked s)"
    by (auto simp: built_from_def bnd_Inr_iff)
  from make_step_action [OF this] show ?thesis by (simp add: unmarked_def)
qed

lemma make_step_velocity:
  "make_step lang stp = Inr s \<Longrightarrow>
     commanded_velocity stp = Inr (act_cartesian_velocity (action_dict s))"
  by (auto simp: make_step_def make_action_dict_def commanded_velocity_def bnd_Inr_iff)

lemma built_from_velocity:
  assumes "built_from cfg ks raw s"
  shows "commanded_velocity raw = Inr (act_cartesian_velocity (action_dict s))"
proof -
  from assms obtain raw' where r: "resize_step (IMAGE_RES cfg) ks raw = Inr raw'"
    and m: "make_step (LANGUAGE_INSTRUCTION cfg) raw' = Inr (unmarked s)"
    by (auto simp: built_from_def bnd_Inr_iff)
  from resize_step_action [OF r] have "commanded_velocity raw = commanded_velocity raw'"
    by (simp add: commanded_velocity_def)
  with make_step_velocity [OF m] show ?thesis by (simp add: unmarked_def)
qed

lemma parse_example_steps:
  assumes "parse_example cfg load_trajectory p = (out, Some (k, smp))"
  obtains data ks where
    "load_trajectory (path_join p ''trajectory.h5'')
        (path_join (path_join p ''recordings'') ''MP4'') = Inr data"
    "data \<noteq> []" "image_keys (hd data) = Inr ks"
    "list_all2 (built_from cfg ks)
       (filter (\<lambda>raw. \<not> (FILTER_NO_OPS cfg \<and> zero_velocity raw)) data) (steps smp)"
proof -
  from assms obtain data where ld: "load_trajectory (path_join p ''trajectory.h5'')
        (path_join (path_join p ''recordings'') ''MP4'') = Inr data"
    and be: "build_episode cfg data = Inr (steps smp)"
    by (rule parse_example_Some)
  from be obtain ks where "data \<noteq> []" "image_keys (hd data) = Inr ks"
    "list_all2 (built_from cfg ks)
       (filter (\<lambda>raw. \<not> (FILTER_NO_OPS cfg \<and> zero_velocity raw)) data) (steps smp)"
    by (rule build_episode_steps)
  with ld show ?thesis by (rule that)
qed

lemma all_same_keys_True:
  "all_same_keys d0 ts = Inr True \<Longrightarrow> t \<in> set ts \<Longrightarrow> key_set t = key_set d0"
proof (induction ts)
  case Nil
  then show ?case by simp
next
  case (Cons a ts)
  then show ?case
    by (auto simp: bnd_Inr_iff key_set_def split: if_splits)
qed

lemma assert_same_keys_Inr:
  "assert_same_keys data = Inr u \<Longrightarrow> t \<in> set data \<Longrightarrow> key_set t = key_set (hd data)"
  by (cases data) (auto simp: assert_same_keys_def bnd_Inr_iff split: if_splits
      dest: all_same_keys_True)

lemma demo_loaded:
  "demo_loader (path_join demo_path ''trajectory.h5'')
     (path_join (path_join demo_path ''recordings'') ''MP4'') = Inr demo_data"
  by code_simp

lemma demo_unfiltered_emitted:
  "parse_example unfiltered_config demo_loader demo_path =
     ([], Some (demo_path, demo_sample_unfiltered))"
  by code_simp

lemma demo_lengths:
  "length (steps demo_sample) = 2" "length (steps demo_sample_unfiltered) = 3"
  by code_simp+

lemma demo_image_keys: "image_keys (hd demo_data) = Inr demo_keys"
  by code_simp

lemma parse_example_load_fail:
  "load_trajectory (path_join p ''trajectory.h5'')
     (path_join (path_join p ''recordings'') ''MP4'') = Inl e \<Longrightarrow>
   parse_example cfg load_trajectory p = ([msg_not_loaded p], None)"
  by (simp add: parse_example_def Let_def)

lemma parse_example_cong:
  "load_trajectory (path_join q ''trajectory.h5'')
     (path_join (path_join q ''recordings'') ''MP4'')
   = load_ok (path_join q ''trajectory.h5'') (path_join (path_join q ''recordings'') ''MP4'')
   \<Longrightarrow> parse_example cfg load_trajectory q = parse_example cfg load_ok q"
  by (simp add: parse_example_def Let_def)

lemma filterM_Inr: "filterM f xs = Inr ys \<Longrightarrow> ys = filter (\<lambda>x. f x = Inr True) xs"
proof (induction xs arbitrary: ys)
  case Nil
  then show ?case by simp
next
  case (Cons x xs)
  then show ?case by (auto simp: bnd_Inr_iff)
qed

lemma date_test_True:
  "bnd (session_date strptime e) (\<lambda>d. Inr (P d)) = Inr True \<longleftrightarrow>
     (case session_date strptime e of Inl err \<Rightarrow> False | Inr d \<Rightarrow> P d)"
  by (cases "session_date strptime e") simp_all

lemma split_paths_Inr:
  assumes "split_paths cfg crawler exists strptime = Inr splits"
  shows "splits = [(''train'',
      filter (in_date_range cfg strptime)
        (filter (\<lambda>p. exists (p @ ''/trajectory.h5'') \<and> exists (p @ ''/recordings/MP4''))
           (crawler (DATA_PATH cfg))))]"
proof -
  let ?ps1 = "filter (\<lambda>p. exists (p @ ''/trajectory.h5'') \<and> exists (p @ ''/recordings/MP4''))
           (crawler (DATA_PATH cfg))"
  let ?c1 = "\<lambda>e. case INITIAL_DATE cfg of None \<Rightarrow> True
      | Some d0 \<Rightarrow> (case session_date strptime e of Inl err \<Rightarrow> False
                    | Inr d \<Rightarrow> datetime_le d0 d)"
  let ?c2 = "\<lambda>e. case FINAL_DATE cfg of None \<Rightarrow> True
      | Some d1 \<Rightarrow> (case session_date strptime e of Inl err \<Rightarrow> False
                    | Inr d \<Rightarrow> datetime_le d d1)"
  from assms obtain ps2 ps3 where
    a: "(case INITIAL_DATE cfg of None \<Rightarrow> Inr ?ps1
         | Some d0 \<Rightarrow> filterM (\<lambda>e. bnd (session_date strptime e) (\<lambda>d. Inr (datetime_le d0 d)))
              ?ps1) = Inr ps2"
    and b: "(case FINAL_DATE cfg of None \<Rightarrow> Inr ps2
         | Some d1 \<Rightarrow> filterM (\<lambda>e. bnd (session_date strptime e) (\<lambda>d. Inr (datetime_le d d1)))
              ps2) = Inr ps3"
    and c: "splits = [(''train'', ps3)]"
    by (auto simp: split_paths_def Let_def bnd_Inr_iff)
  from a have ps2: "ps2 = filter ?c1 ?ps1"
    by (cases "INITIAL_DATE cfg") (auto dest!: filterM_Inr simp: date_test_True)
  from b have ps3: "ps3 = filter ?c2 ps2"
    by (cases "FINAL_DATE cfg") (auto dest!: filterM_Inr simp: date_test_True)
  have "filter ?c2 (filter ?c1 xs) = filter (in_date_range cfg strptime) xs" for xs
    by (induction xs) (auto simp: in_date_range_def)
  then have "filter ?c2 (filter ?c1 ?ps1) = filter (in_date_range cfg strptime) ?ps1" .
  with c ps2 ps3 show ?thesis by simp
qed

lemma datetime_le_mar18:
  "datetime_le (mar18 h m s) (mar18 h' m' s') \<longleftrightarrow>
     h < h' \<or> (h = h' \<and> (m < m' \<or> (m = m' \<and> s \<le> s')))"
  by (auto simp: datetime_le_def datetime_fields_def mar18_def)

lemma demo_split:
  "split_paths module_config demo_crawler demo_exists demo_strptime =
     Inr [(''train'',
       [demo_session_path ''Tue_Mar_18_10:00:00_2025'',
        demo_session_path ''Tue_Mar_18_11:00:00_2025'',
        demo_session_path ''Tue_Mar_18_09:55:00_2025''])]"
  by code_simp

lemma demo_split_open:
  "split_paths open_config demo_crawler demo_exists demo_strptime =
     Inr [(''train'',
       [demo_session_path ''Tue_Mar_18_10:00:00_2025'',
        demo_session_path ''Tue_Mar_18_08:00:00_2025'',
        demo_session_path ''Tue_Mar_18_11:00:00_2025'',
        demo_session_path ''Tue_Mar_18_11:00:01_2025'',
        demo_session_path ''Tue_Mar_18_09:55:00_2025''])]"
  by code_simp

lemma demo_candidate:
  "n \<in> set demo_sessions \<Longrightarrow> demo_session_path n \<in> set (demo_crawler (DATA_PATH module_config))"
  by (auto simp: demo_crawler_def demo_session_path_def)

lemma demo_bounds:
  "INITIAL_DATE module_config = Some (mar18 9 55 0) \<and>
   FINAL_DATE module_config = Some (mar18 11 0 0)"
  by (simp add: module_config_def mar18_def)

lemma demo_open_bounds: "INITIAL_DATE open_config = None \<and> FINAL_DATE open_config = None"
  by (simp add: open_config_def)

lemma demo_files:
  "demo_exists (demo_session_path ''Tue_Mar_18_10:00:00_2025'' @ ''/trajectory.h5'')"
  "demo_exists (demo_session_path ''Tue_Mar_18_10:00:00_2025'' @ ''/recordings/MP4'')"
  "demo_exists (demo_session_path ''Tue_Mar_18_08:00:00_2025'' @ ''/trajectory.h5'')"
  "demo_exists (demo_session_path ''Tue_Mar_18_08:00:00_2025'' @ ''/recordings/MP4'')"
  "demo_exists (demo_session_path ''Tue_Mar_18_11:00:00_2025'' @ ''/trajectory.h5'')"
  "demo_exists (demo_session_path ''Tue_Mar_18_11:00:00_2025'' @ ''/recordings/MP4'')"
  by code_simp+

lemma demo_dates:
  "session_date demo_strptime (demo_session_path ''Tue_Mar_18_10:00:00_2025'')
     = Inr (mar18 10 0 0)"
  "session_date demo_strptime (demo_session_path ''Tue_Mar_18_08:00:00_2025'')
     = Inr (mar18 8 0 0)"
  "session_date demo_strptime (demo_session_path ''Tue_Mar_18_11:00:00_2025'')
     = Inr (mar18 11 0 0)"
  by code_simp+

lemma getitem_Inr_iff:
  "getitem d k = Inr v \<longleftrightarrow> (\<exists>kvs. d = Dict kvs \<and> map_of kvs k = Some v)"
  by (cases d) (auto split: option.splits)

lemma resize_and_encode_Inr:
  assumes "resize_and_encode v sz = Inr v'"
  obtains a where "v = Frame a" "dtype a = UInt8"
    "v' = Frame \<lparr>height = snd sz, width = fst sz, channels = channels a, dtype = UInt8,
                  pixels = Resampled BICUBIC sz (pixels a)\<rparr>"
  using assms
  by (auto simp: resize_and_encode_def Image_fromarray_def Image_resize_def np_array_def
      bnd_Inr_iff split: pyval.splits if_splits)

lemma resize_and_encode_rgb:
  assumes "resize_and_encode v (snd res, fst res) = Inr v'" and "is_rgb_frame v"
  shows "resized_frame res v' \<and> is_rgb_frame v'"
proof -
  from assms(1) obtain a where "v = Frame a"
    "v' = Frame \<lparr>height = snd (snd res, fst res), width = fst (snd res, fst res),
                  channels = channels a, dtype = UInt8,
                  pixels = Resampled BICUBIC (snd res, fst res) (pixels a)\<rparr>"
    by (rule resize_and_encode_Inr)
  with assms(2) show ?thesis
    by (simp add: resized_frame_def is_rgb_frame_def shape_def)
qed

lemma resize_key_image:
  assumes "resize_key res stp key = Inr stp'" and "image_dict stp = Inr img"
  shows "\<exists>fr fr'. map_of img key = Some fr \<and>
           resize_and_encode fr (snd res, fst res) = Inr fr' \<and>
           image_dict stp' = Inr (AList.update key fr' img)"
  using assms
  by (auto simp: resize_key_def image_dict_def bnd_Inr_iff getitem_Inr_iff update_conv')

lemma resize_key_camera_types:
  assumes "resize_key res stp key = Inr stp'"
  shows "camera_types stp' = camera_types stp"
  using assms
  by (auto simp: resize_key_def camera_types_def bnd_Inr_iff getitem_Inr_iff update_conv')

lemma resize_step_camera_types:
  "resize_step res ks stp = Inr stp' \<Longrightarrow> camera_types stp' = camera_types stp"
  unfolding resize_step_def
  by (induction ks arbitrary: stp) (auto simp: bnd_Inr_iff dest: resize_key_camera_types)

lemma resize_fold_key:
  assumes "foldM (resize_key res) stp ks = Inr stp'" and "image_dict stp = Inr img"
    and "map_of img k = Some v" and "is_rgb_frame v"
    and "k \<in> set ks \<or> resized_frame res v"
  shows "\<exists>img' v'. image_dict stp' = Inr img' \<and> map_of img' k = Some v' \<and>
           resized_frame res v'"
  using assms
proof (induction ks arbitrary: stp img v)
  case Nil
  then show ?case by auto
next
  case (Cons key ks)
  from Cons.prems(1) obtain stp1 where k1: "resize_key res stp key = Inr stp1"
    and rest: "foldM (resize_key res) stp1 ks = Inr stp'"
    by (auto simp: bnd_Inr_iff)
  from resize_key_image [OF k1 Cons.prems(2)] obtain fr fr' where
    fr: "map_of img key = Some fr"
    and enc: "resize_and_encode fr (snd res, fst res) = Inr fr'"
    and img1: "image_dict stp1 = Inr (AList.update key fr' img)"
    by blast
  show ?case
  proof (cases "key = k")
    case True
    with fr Cons.prems(3) have "fr = v" by simp
    with enc Cons.prems(4) have good: "resized_frame res fr' \<and> is_rgb_frame fr'"
      by (simp add: resize_and_encode_rgb)
    from True have "map_of (AList.update key fr' img) k = Some fr'"
      by (simp add: update_conv')
    from Cons.IH [OF rest img1 this] good show ?thesis by simp
  next
    case False
    then have "map_of (AList.update key fr' img) k = Some v"
      using Cons.prems(3) by (simp add: update_conv')
    moreover from False Cons.prems(5) have "k \<in> set ks \<or> resized_frame res v" by auto
    ultimately show ?thesis using Cons.IH [OF rest img1] Cons.prems(4) by blast
  qed
qed

lemma reverse_channels_resized:
  assumes "reverse_channels v = Inr im" and "resized_frame res v"
  shows "emitted_image res im"
  using assms
  by (auto simp: reverse_channels_def resized_frame_def emitted_image_def shape_def
      split: pyval.splits pixels.splits)

lemma make_observation_images:
  assumes "make_observation obs wrist_ids exterior_ids = Inr o'"
  shows "left_image obs exterior_ids = Inr (exterior_image_1_left o') \<and>
         left_image obs wrist_ids = Inr (wrist_image_left o')"
  using assms by (auto simp: make_observation_def bnd_Inr_iff)

lemma make_step_cameras:
  assumes "make_step lang stp = Inr s"
  shows "\<exists>obs (cams :: (string \<times> pyval) list) wrist exterior.
     getitem stp ''observation'' = Inr obs \<and> camera_types stp = Inr cams \<and>
     filterM (\<lambda>(k, v). eq_zero v) cams = Inr wrist \<and>
     filterM (\<lambda>(k, v). ne_zero v) cams = Inr exterior \<and>
     make_observation obs (map fst wrist) (map fst exterior) = Inr (observation s)"
  using assms by (auto simp: make_step_def camera_types_def bnd_Inr_iff)

lemma left_image_key:
  assumes "left_image obs ids = Inr im"
  shows "\<exists>cam img v. first ids = Inr cam \<and> getitem obs ''image'' = Inr (Dict img) \<and>
           map_of img (cam @ ''_left'') = Some v \<and> reverse_channels v = Inr im"
  using assms by (auto simp: left_image_def bnd_Inr_iff getitem_Inr_iff)

lemma make_step_selected:
  assumes "make_step lang stp = Inr s"
  shows "\<exists>ke kw img ve vw. selected_image_keys stp = Inr [ke, kw] \<and>
     image_dict stp = Inr img \<and>
     map_of img ke = Some ve \<and>
     reverse_channels ve = Inr (exterior_image_1_left (observation s)) \<and>
     map_of img kw = Some vw \<and>
     reverse_channels vw = Inr (wrist_image_left (observation s))"
proof -
  from make_step_cameras [OF assms] obtain obs cams wrist exterior where
    obs: "getitem stp ''observation'' = Inr obs"
    and cams: "camera_types stp = Inr cams"
    and w: "filterM (\<lambda>(k, v). eq_zero v) cams = Inr wrist"
    and e: "filterM (\<lambda>(k, v). ne_zero v) cams = Inr exterior"
    and mo: "make_observation obs (map fst wrist) (map fst exterior) = Inr (observation s)"
    by blast
  from make_observation_images [OF mo]
  have le: "left_image obs (map fst exterior) = Inr (exterior_image_1_left (observation s))"
    and lw: "left_image obs (map fst wrist) = Inr (wrist_image_left (observation s))"
    by simp_all
  from left_image_key [OF le] obtain ce img ve where
    ce: "first (map fst exterior) = Inr ce"
    and img: "getitem obs ''image'' = Inr (Dict img)"
    and ve: "map_of img (ce @ ''_left'') = Some ve"
      "reverse_channels ve = Inr (exterior_image_1_left (observation s))"
    by blast
  from left_image_key [OF lw] img obtain cw vw where
    cw: "first (map fst wrist) = Inr cw"
    and vw: "map_of img (cw @ ''_left'') = Some vw"
      "reverse_channels vw = Inr (wrist_image_left (observation s))"
    by auto
  from cams w e ce cw
  have "selected_image_keys stp = Inr [ce @ ''_left'', cw @ ''_left'']"
    by (simp add: selected_image_keys_def)
  moreover from obs img have "image_dict stp = Inr img"
    by (simp add: image_dict_def)
  ultimately show ?thesis using ve vw by blast
qed

lemma selected_image_keys_resize_step:
  "resize_step res ks stp = Inr stp' \<Longrightarrow> selected_image_keys stp' = selected_image_keys stp"
  by (simp add: selected_image_keys_def resize_step_camera_types)

lemma built_from_selected:
  assumes b: "built_from cfg ks raw s" and ok: "selected_frames_resizable ks raw"
  shows "emitted_image (IMAGE_RES cfg) (exterior_image_1_left (observation s)) \<and>
         emitted_image (IMAGE_RES cfg) (wrist_image_left (observation s))"
proof -
  from b obtain raw' where r: "resize_step (IMAGE_RES cfg) ks raw = Inr raw'"
    and m: "make_step (LANGUAGE_INSTRUCTION cfg) raw' = Inr (unmarked s)"
    by (auto simp: built_from_def bnd_Inr_iff)
  from make_step_selected [OF m] obtain ke kw img' ve vw where
    sel': "selected_image_keys raw' = Inr [ke, kw]"
    and img': "image_dict raw' = Inr img'"
    and ve: "map_of img' ke = Some ve"
      "reverse_channels ve = Inr (exterior_image_1_left (observation s))"
    and vw: "map_of img' kw = Some vw"
      "reverse_channels vw = Inr (wrist_image_left (observation s))"
    by (auto simp: unmarked_def)
  from sel' selected_image_keys_resize_step [OF r]
  have sel: "selected_image_keys raw = Inr [ke, kw]" by simp
  with ok obtain img v0e v0w where img: "image_dict raw = Inr img"
    and e0: "ke \<in> set ks" "map_of img ke = Some v0e" "is_rgb_frame v0e"
    and w0: "kw \<in> set ks" "map_of img kw = Some v0w" "is_rgb_frame v0w"
    by (auto simp: selected_frames_resizable_def split: sum.splits option.splits)
  from r have f: "foldM (resize_key (IMAGE_RES cfg)) raw ks = Inr raw'"
    by (simp add: resize_step_def)
  from resize_fold_key [OF f img e0(2,3)] e0(1) img' ve(1)
  have "resized_frame (IMAGE_RES cfg) ve" by auto
  moreover from resize_fold_key [OF f img w0(2,3)] w0(1) img' vw(1)
  have "resized_frame (IMAGE_RES cfg) vw" by auto
  ultimately show ?thesis using ve(2) vw(2) by (simp add: reverse_channels_resized)
qed

lemma emitted_image_shape:
  "emitted_image res im \<longleftrightarrow>
     shape im = (fst res, snd res, 3) \<and> dtype im = UInt8 \<and>
     (\<exists>px. pixels im = ChannelsReversed (Resampled BICUBIC (snd res, fst res) px))"
  by (auto simp: emitted_image_def split: pixels.splits)

lemma demo_third_camera_emitted:
  "parse_example module_config demo_loader_cameras demo_path_third_camera =
     ([], Some (demo_path_third_camera, demo_sample_third_camera))"
  by code_simp

lemma demo_four_channels_emitted:
  "parse_example module_config demo_loader_cameras demo_path_four_channels =
     ([], Some (demo_path_four_channels, demo_sample_four_channels))"
  by code_simp

lemma kinds_split:
  "split_paths module_config kinds_crawler (os_path_exists kinds_fs) kinds_strptime =
     Inr [(''train'', [kinds_regular, kinds_swapped])]"
  by code_simp

section \<open>Boundary flags and terminal reward\<close>

text \<open>
  C1. In every episode that \<^verbatim>\<open>_parse_example\<close> returns there is at least one step;
  \<^verbatim>\<open>is_first\<close> is true at exactly one step, the earliest one retained (index 0);
  \<^verbatim>\<open>is_last\<close> and \<^verbatim>\<open>is_terminal\<close> are true at exactly one step, the latest one
  retained, and that step has reward 1.0; every other step has reward 0.0 and, unless it
  is the earliest or the latest, all flags false.
\<close>

theorem boundary_flags:
  assumes "parse_example cfg load_trajectory p = (out, Some (k, smp))"
  shows "steps smp \<noteq> [] \<and>
     (\<forall>i < length (steps smp).
        (is_first (steps smp ! i) \<longleftrightarrow> i = 0) \<and>
        (is_last (steps smp ! i) \<longleftrightarrow> i = length (steps smp) - 1) \<and>
        (is_terminal (steps smp ! i) \<longleftrightarrow> i = length (steps smp) - 1) \<and>
        reward (steps smp ! i) = (if i = length (steps smp) - 1 then 1 else 0))"
  using emitted_nonempty [OF assms] emitted_flags [OF assms] by blast

theorem boundary_flags_witness:
  "parse_example module_config demo_loader demo_path = ([], Some (demo_path, demo_sample)) \<and>
   length (steps demo_sample) = 2 \<and>
   is_first (steps demo_sample ! 0) \<and> \<not> is_last (steps demo_sample ! 0) \<and>
   \<not> is_terminal (steps demo_sample ! 0) \<and> reward (steps demo_sample ! 0) = 0 \<and>
   \<not> is_first (steps demo_sample ! 1) \<and> is_last (steps demo_sample ! 1) \<and>
   is_terminal (steps demo_sample ! 1) \<and> reward (steps demo_sample ! 1) = 1"
proof -
  have len: "length (steps demo_sample) = 2" by code_simp
  from boundary_flags [OF demo_emitted] len
  have "\<forall>i<2. (is_first (steps demo_sample ! i) \<longleftrightarrow> i = 0) \<and>
        (is_last (steps demo_sample ! i) \<longleftrightarrow> i = 1) \<and>
        (is_terminal (steps demo_sample ! i) \<longleftrightarrow> i = 1) \<and>
        reward (steps demo_sample ! i) = (if i = 1 then 1 else 0)"
    by simp
  then have "(is_first (steps demo_sample ! 0) \<longleftrightarrow> (0::nat) = 0) \<and>
        (is_last (steps demo_sample ! 0) \<longleftrightarrow> (0::nat) = 1) \<and>
        (is_terminal (steps demo_sample ! 0) \<longleftrightarrow> (0::nat) = 1) \<and>
        reward (steps demo_sample ! 0) = (if (0::nat) = 1 then 1 else 0)"
    and "(is_first (steps demo_sample ! 1) \<longleftrightarrow> (1::nat) = 0) \<and>
        (is_last (steps demo_sample ! 1) \<longleftrightarrow> (1::nat) = 1) \<and>
        (is_terminal (steps demo_sample ! 1) \<longleftrightarrow> (1::nat) = 1) \<and>
        reward (steps demo_sample ! 1) = (if (1::nat) = 1 then 1 else 0)"
    by simp_all
  with len demo_emitted show ?thesis by simp
qed

text \<open>
  C10. An emitted episode that retains exactly one step: the assignments to
  \<^verbatim>\<open>episode[0]\<close> and \<^verbatim>\<open>episode[-1]\<close> hit the same dictionary, so that step is first,
  last and terminal at once and has reward 1.0.
\<close>

theorem single_step_episode:
  assumes "parse_example cfg load_trajectory p = (out, Some (k, smp))"
    and "length (steps smp) = 1"
  shows "is_first (steps smp ! 0) \<and> is_last (steps smp ! 0) \<and>
         is_terminal (steps smp ! 0) \<and> reward (steps smp ! 0) = 1"
  using emitted_flags [OF assms(1), of 0] assms(2) by simp

theorem single_step_episode_witness:
  "parse_example module_config demo_loader demo_path_short =
     ([], Some (demo_path_short, demo_sample_short)) \<and>
   length (steps demo_sample_short) = 1 \<and>
   is_first (steps demo_sample_short ! 0) \<and> is_last (steps demo_sample_short ! 0) \<and>
   is_terminal (steps demo_sample_short ! 0) \<and> reward (steps demo_sample_short ! 0) = 1"
proof -
  have len: "length (steps demo_sample_short) = 1" by code_simp
  from single_step_episode [OF demo_short_emitted len] len demo_short_emitted
  show ?thesis by simp
qed

section \<open>The action vector\<close>

text \<open>
  C2. In every step of an emitted episode the action vector is the commanded cartesian
  position of \<^verbatim>\<open>action_dict\<close> followed by its one-element gripper position; with the
  six cartesian components of the schema it has seven elements.
\<close>

theorem action_vector:
  assumes "parse_example cfg load_trajectory p = (out, Some (k, smp))"
    and "s \<in> set (steps smp)"
  shows "\<exists>cp g. act_cartesian_position (action_dict s) = Vec cp \<and>
           act_gripper_position (action_dict s) = [g] \<and>
           action s = cp @ act_gripper_position (action_dict s) \<and>
           (length cp = 6 \<longrightarrow> length (action s) = 7)"
proof -
  from assms(1) obtain data ks where
    "list_all2 (built_from cfg ks)
       (filter (\<lambda>raw. \<not> (FILTER_NO_OPS cfg \<and> zero_velocity raw)) data) (steps smp)"
    by (rule parse_example_steps)
  from list_all2_right [OF this assms(2)] obtain raw where "built_from cfg ks raw s"
    by auto
  from built_from_action [OF this] show ?thesis by auto
qed

theorem action_vector_witness:
  "parse_example module_config demo_loader demo_path = ([], Some (demo_path, demo_sample)) \<and>
   steps demo_sample ! 0 \<in> set (steps demo_sample) \<and>
   act_cartesian_position (action_dict (steps demo_sample ! 0)) = Vec [1, 2, 3, 4, 5, 6] \<and>
   act_gripper_position (action_dict (steps demo_sample ! 0)) = [7] \<and>
   action (steps demo_sample ! 0) = [1, 2, 3, 4, 5, 6, 7] \<and>
   length (action (steps demo_sample ! 0)) = 7"
proof -
  have mem: "steps demo_sample ! 0 \<in> set (steps demo_sample)"
    by (simp add: demo_lengths)
  have cp: "act_cartesian_position (action_dict (steps demo_sample ! 0)) = Vec [1, 2, 3, 4, 5, 6]"
    by code_simp
  have gp: "act_gripper_position (action_dict (steps demo_sample ! 0)) = [7]"
    by code_simp
  from action_vector [OF demo_emitted mem] cp gp
  have "action (steps demo_sample ! 0) = [1, 2, 3, 4, 5, 6, 7]" by auto
  with demo_emitted mem cp gp show ?thesis by simp
qed

section \<open>No-op filtering\<close>

text \<open>
  C3. The steps of an emitted episode are, in order, the dictionaries built from the raw
  steps that pass the filter: a raw step is dropped exactly when the flag is on and its
  commanded cartesian velocity is zero in every component. With the flag on no emitted
  step is built from a zero-velocity raw step; with the flag off every raw step, the
  zero-velocity ones included, has its emitted step at the same position.
\<close>

theorem no_op_filtering:
  assumes ld: "load_trajectory (path_join p ''trajectory.h5'')
        (path_join (path_join p ''recordings'') ''MP4'') = Inr data"
    and em: "parse_example cfg load_trajectory p = (out, Some (k, smp))"
  shows "data \<noteq> [] \<and> (\<exists>ks. image_keys (hd data) = Inr ks \<and>
     list_all2 (built_from cfg ks)
       (filter (\<lambda>raw. \<not> (FILTER_NO_OPS cfg \<and> zero_velocity raw)) data) (steps smp) \<and>
     (FILTER_NO_OPS cfg \<longrightarrow>
        (\<forall>raw s. zero_velocity raw \<and> s \<in> set (steps smp) \<longrightarrow> \<not> built_from cfg ks raw s)) \<and>
     (\<not> FILTER_NO_OPS cfg \<longrightarrow> list_all2 (built_from cfg ks) data (steps smp)))"
proof -
  let ?P = "\<lambda>raw. \<not> (FILTER_NO_OPS cfg \<and> zero_velocity raw)"
  from em obtain data0 ks where "load_trajectory (path_join p ''trajectory.h5'')
        (path_join (path_join p ''recordings'') ''MP4'') = Inr data0"
    and "data0 \<noteq> []"
    and "image_keys (hd data0) = Inr ks"
    and "list_all2 (built_from cfg ks) (filter ?P data0) (steps smp)"
    by (rule parse_example_steps)
  with ld have ne: "data \<noteq> []" and ks: "image_keys (hd data) = Inr ks"
    and rel: "list_all2 (built_from cfg ks) (filter ?P data) (steps smp)"
    by simp_all
  have on: "\<not> built_from cfg ks raw s"
    if flt: "FILTER_NO_OPS cfg" and z: "zero_velocity raw" and s: "s \<in> set (steps smp)"
    for raw s
  proof
    assume b: "built_from cfg ks raw s"
    from list_all2_right [OF rel s] obtain raw' where raw': "raw' \<in> set (filter ?P data)"
      and b': "built_from cfg ks raw' s"
      by auto
    from built_from_velocity [OF b] built_from_velocity [OF b']
    have "zero_velocity raw' = zero_velocity raw" by (simp add: zero_velocity_def)
    with z flt raw' show False by simp
  qed
  have off: "list_all2 (built_from cfg ks) data (steps smp)" if "\<not> FILTER_NO_OPS cfg"
    using rel that by simp
  from ne ks rel on off show ?thesis by blast
qed

theorem no_op_filtering_witness:
  "demo_loader (path_join demo_path ''trajectory.h5'')
     (path_join (path_join demo_path ''recordings'') ''MP4'') = Inr demo_data \<and>
   zero_velocity (demo_data ! 1) \<and>
   parse_example module_config demo_loader demo_path = ([], Some (demo_path, demo_sample)) \<and>
   FILTER_NO_OPS module_config \<and>
   length (steps demo_sample) = 2 \<and>
   built_from module_config demo_keys (demo_data ! 0) (steps demo_sample ! 0) \<and>
   built_from module_config demo_keys (demo_data ! 2) (steps demo_sample ! 1) \<and>
   \<not> built_from module_config demo_keys (demo_data ! 1) (steps demo_sample ! 0) \<and>
   \<not> built_from module_config demo_keys (demo_data ! 1) (steps demo_sample ! 1) \<and>
   parse_example unfiltered_config demo_loader demo_path =
     ([], Some (demo_path, demo_sample_unfiltered)) \<and>
   \<not> FILTER_NO_OPS unfiltered_config \<and>
   length (steps demo_sample_unfiltered) = 3 \<and>
   built_from unfiltered_config demo_keys (demo_data ! 1) (steps demo_sample_unfiltered ! 1)"
proof -
  have z: "zero_velocity (demo_data ! 1)" by code_simp
  have on: "FILTER_NO_OPS module_config" by code_simp
  have off: "\<not> FILTER_NO_OPS unfiltered_config" by code_simp
  have kept: "filter (\<lambda>raw. \<not> (FILTER_NO_OPS module_config \<and> zero_velocity raw)) demo_data
      = [demo_data ! 0, demo_data ! 2]"
    by code_simp
  have m0: "steps demo_sample ! 0 \<in> set (steps demo_sample)"
    and m1: "steps demo_sample ! 1 \<in> set (steps demo_sample)"
    by (simp_all add: demo_lengths)
  from no_op_filtering [OF demo_loaded demo_emitted] demo_image_keys on
  have rel: "list_all2 (built_from module_config demo_keys)
       (filter (\<lambda>raw. \<not> (FILTER_NO_OPS module_config \<and> zero_velocity raw)) demo_data)
       (steps demo_sample)"
    and absent: "\<forall>raw s. zero_velocity raw \<and> s \<in> set (steps demo_sample) \<longrightarrow>
       \<not> built_from module_config demo_keys raw s"
    by auto
  from rel have b0: "built_from module_config demo_keys (demo_data ! 0) (steps demo_sample ! 0)"
    and b1: "built_from module_config demo_keys (demo_data ! 2) (steps demo_sample ! 1)"
    unfolding kept by (auto simp: list_all2_conv_all_nth demo_lengths)
  from absent z m0 m1
  have n0: "\<not> built_from module_config demo_keys (demo_data ! 1) (steps demo_sample ! 0)"
    and n1: "\<not> built_from module_config demo_keys (demo_data ! 1) (steps demo_sample ! 1)"
    by blast+
  from no_op_filtering [OF demo_loaded demo_unfiltered_emitted] demo_image_keys off
  have "list_all2 (built_from unfiltered_config demo_keys) demo_data
       (steps demo_sample_unfiltered)"
    by auto
  then have u: "built_from unfiltered_config demo_keys (demo_data ! 1)
       (steps demo_sample_unfiltered ! 1)"
    by (auto simp: list_all2_conv_all_nth demo_lengths)
  from demo_loaded z demo_emitted on b0 b1 n0 n1 demo_unfiltered_emitted off u demo_lengths
  show ?thesis by simp
qed

section \<open>Trajectories without a retained step\<close>

text \<open>
  C4. When the loader returns a trajectory of which the filter keeps no step (all its
  steps are no-ops and the filter is on, or it has no step), \<^verbatim>\<open>_parse_example\<close>
  prints the processing-error line and returns \<^verbatim>\<open>None\<close>: the \<^verbatim>\<open>IndexError\<close> of
  \<^verbatim>\<open>episode[0]\<close> is caught, nothing is emitted.
\<close>

theorem empty_after_filtering:
  assumes ld: "load_trajectory (path_join p ''trajectory.h5'')
        (path_join (path_join p ''recordings'') ''MP4'') = Inr data"
    and empty: "filter (\<lambda>raw. \<not> (FILTER_NO_OPS cfg \<and> zero_velocity raw)) data = []"
  shows "parse_example cfg load_trajectory p = ([msg_processing p], None)"
proof (cases "build_episode cfg data")
  case (Inl e)
  with ld show ?thesis by (simp add: parse_example_def Let_def)
next
  case (Inr ep)
  then obtain ks where "ep \<noteq> []"
    "list_all2 (built_from cfg ks)
       (filter (\<lambda>raw. \<not> (FILTER_NO_OPS cfg \<and> zero_velocity raw)) data) ep"
    by (rule build_episode_steps)
  with empty show ?thesis by simp
qed

theorem empty_after_filtering_witness:
  "demo_loader (path_join demo_path_idle ''trajectory.h5'')
     (path_join (path_join demo_path_idle ''recordings'') ''MP4'') = Inr demo_data_idle \<and>
   filter (\<lambda>raw. \<not> (FILTER_NO_OPS module_config \<and> zero_velocity raw)) demo_data_idle = [] \<and>
   parse_example module_config demo_loader demo_path_idle =
     ([msg_processing demo_path_idle], None)"
proof -
  have ld: "demo_loader (path_join demo_path_idle ''trajectory.h5'')
     (path_join (path_join demo_path_idle ''recordings'') ''MP4'') = Inr demo_data_idle"
    by code_simp
  have e: "filter (\<lambda>raw. \<not> (FILTER_NO_OPS module_config \<and> zero_velocity raw)) demo_data_idle
      = []"
    by code_simp
  from empty_after_filtering
      [where load_trajectory = demo_loader and p = demo_path_idle and cfg = module_config,
        OF ld e] ld e
  show ?thesis by simp
qed

section \<open>The key check\<close>

text \<open>
  C6, as stated: a step whose observation keys differ from those of the first step makes
  the path a skipped one. The assertion compares \<^verbatim>\<open>t.keys()\<close>, the keys of the step
  itself. In the sample below the second step's observation has a key the first one lacks,
  the steps' own keys agree, and the episode is returned with both steps.
\<close>

theorem observation_keys_counterexample:
  "observation_keys (demo_data_odd ! 1) \<noteq> observation_keys (demo_data_odd ! 0) \<and>
   demo_loader (path_join demo_path_odd ''trajectory.h5'')
     (path_join (path_join demo_path_odd ''recordings'') ''MP4'') = Inr demo_data_odd \<and>
   fst (parse_example module_config demo_loader demo_path_odd) = [] \<and>
   map_option fst (snd (parse_example module_config demo_loader demo_path_odd))
     = Some demo_path_odd \<and>
   map_option (length \<circ> steps \<circ> snd) (snd (parse_example module_config demo_loader demo_path_odd))
     = Some 2"
  by code_simp

text \<open>
  C6, amended: a step whose top-level keys differ from those of the first step makes
  \<^verbatim>\<open>_parse_example\<close> print the processing-error line and return \<^verbatim>\<open>None\<close>.
\<close>

theorem key_mismatch_skipped:
  assumes ld: "load_trajectory (path_join p ''trajectory.h5'')
        (path_join (path_join p ''recordings'') ''MP4'') = Inr data"
    and t: "t \<in> set data" and diff: "key_set t \<noteq> key_set (hd data)"
  shows "parse_example cfg load_trajectory p = ([msg_processing p], None)"
proof (cases "build_episode cfg data")
  case (Inl e)
  with ld show ?thesis by (simp add: parse_example_def Let_def)
next
  case (Inr ep)
  then have "assert_same_keys data = Inr ()" by (rule build_episode_Inr)
  from assert_same_keys_Inr [OF this t] diff show ?thesis by simp
qed

theorem key_mismatch_skipped_witness:
  "demo_loader (path_join demo_path_mixed ''trajectory.h5'')
     (path_join (path_join demo_path_mixed ''recordings'') ''MP4'') = Inr demo_data_mixed \<and>
   demo_data_mixed ! 1 \<in> set demo_data_mixed \<and>
   key_set (demo_data_mixed ! 1) \<noteq> key_set (hd demo_data_mixed) \<and>
   parse_example module_config demo_loader demo_path_mixed =
     ([msg_processing demo_path_mixed], None)"
proof -
  have ld: "demo_loader (path_join demo_path_mixed ''trajectory.h5'')
     (path_join (path_join demo_path_mixed ''recordings'') ''MP4'') = Inr demo_data_mixed"
    by code_simp
  have t: "demo_data_mixed ! 1 \<in> set demo_data_mixed"
    by (simp add: demo_data_mixed_def)
  have d: "key_set (demo_data_mixed ! 1) \<noteq> key_set (hd demo_data_mixed)"
    by code_simp
  from key_mismatch_skipped
      [where load_trajectory = demo_loader and p = demo_path_mixed and cfg = module_config,
        OF ld t d] ld t d
  show ?thesis by simp
qed

section \<open>Failure isolation\<close>

text \<open>
  C7. When the loader raises for the path \<open>p\<close>, \<^verbatim>\<open>_generate_examples\<close> yields one value
  per path; at \<open>p\<close> it prints the one line saying that the data could not be loaded and
  yields \<^verbatim>\<open>None\<close>; at every other path it yields what it yields with any loader that
  agrees with this one on the other paths, whatever that loader does at \<open>p\<close>.
\<close>

theorem failure_isolation:
  assumes fail: "load_trajectory (path_join p ''trajectory.h5'')
        (path_join (path_join p ''recordings'') ''MP4'') = Inl e"
    and same: "\<forall>q\<in>set paths. q \<noteq> p \<longrightarrow>
        load_trajectory (path_join q ''trajectory.h5'')
          (path_join (path_join q ''recordings'') ''MP4'')
        = load_ok (path_join q ''trajectory.h5'')
          (path_join (path_join q ''recordings'') ''MP4'')"
  shows "length (generate_examples cfg load_trajectory paths) = length paths \<and>
     (\<forall>i<length paths.
        generate_examples cfg load_trajectory paths ! i =
          (if paths ! i = p then ([msg_not_loaded p], None)
           else generate_examples cfg load_ok paths ! i))"
proof (intro conjI allI impI)
  show "length (generate_examples cfg load_trajectory paths) = length paths"
    by (simp add: generate_examples_def)
next
  fix i assume i: "i < length paths"
  show "generate_examples cfg load_trajectory paths ! i =
          (if paths ! i = p then ([msg_not_loaded p], None)
           else generate_examples cfg load_ok paths ! i)"
  proof (cases "paths ! i = p")
    case True
    with i fail show ?thesis
      by (simp add: generate_examples_def parse_example_load_fail)
  next
    case False
    with i same have "parse_example cfg load_trajectory (paths ! i)
        = parse_example cfg load_ok (paths ! i)"
      by (intro parse_example_cong) simp
    with i False show ?thesis by (simp add: generate_examples_def)
  qed
qed

theorem failure_isolation_witness:
  "demo_loader (path_join demo_path_broken ''trajectory.h5'')
     (path_join (path_join demo_path_broken ''recordings'') ''MP4'') = Inl OSError \<and>
   generate_examples module_config demo_loader [demo_path, demo_path_broken, demo_path_short]
     = [([], Some (demo_path, demo_sample)), ([msg_not_loaded demo_path_broken], None),
        ([], Some (demo_path_short, demo_sample_short))] \<and>
   generate_examples module_config demo_loader_repaired
       [demo_path, demo_path_broken, demo_path_short] ! 0 = ([], Some (demo_path, demo_sample)) \<and>
   generate_examples module_config demo_loader_repaired
       [demo_path, demo_path_broken, demo_path_short] ! 2
     = ([], Some (demo_path_short, demo_sample_short))"
proof -
  let ?paths = "[demo_path, demo_path_broken, demo_path_short]"
  have fail: "demo_loader (path_join demo_path_broken ''trajectory.h5'')
     (path_join (path_join demo_path_broken ''recordings'') ''MP4'') = Inl OSError"
    by code_simp
  have same: "\<forall>q\<in>set ?paths. q \<noteq> demo_path_broken \<longrightarrow>
        demo_loader (path_join q ''trajectory.h5'')
          (path_join (path_join q ''recordings'') ''MP4'')
        = demo_loader_repaired (path_join q ''trajectory.h5'')
          (path_join (path_join q ''recordings'') ''MP4'')"
    by code_simp
  have g: "generate_examples module_config demo_loader ?paths
     = [([], Some (demo_path, demo_sample)), ([msg_not_loaded demo_path_broken], None),
        ([], Some (demo_path_short, demo_sample_short))]"
    by code_simp
  from failure_isolation [OF fail same, of module_config]
  have "\<forall>i<3. generate_examples module_config demo_loader ?paths ! i =
          (if ?paths ! i = demo_path_broken then ([msg_not_loaded demo_path_broken], None)
           else generate_examples module_config demo_loader_repaired ?paths ! i)"
    by simp
  then have "generate_examples module_config demo_loader ?paths ! 0 =
          (if ?paths ! 0 = demo_path_broken then ([msg_not_loaded demo_path_broken], None)
           else generate_examples module_config demo_loader_repaired ?paths ! 0)"
    and "generate_examples module_config demo_loader ?paths ! 2 =
          (if ?paths ! 2 = demo_path_broken then ([msg_not_loaded demo_path_broken], None)
           else generate_examples module_config demo_loader_repaired ?paths ! 2)"
    by simp_all
  moreover have "demo_path \<noteq> demo_path_broken" "demo_path_short \<noteq> demo_path_broken"
    by (simp_all add: demo_path_def demo_path_broken_def demo_path_short_def)
  ultimately have "generate_examples module_config demo_loader_repaired ?paths ! 0
      = ([], Some (demo_path, demo_sample))"
    and "generate_examples module_config demo_loader_repaired ?paths ! 2
      = ([], Some (demo_path_short, demo_sample_short))"
    unfolding g by simp_all
  with fail g show ?thesis by simp
qed

section \<open>Date filtering\<close>

text \<open>
  C5. Of the crawled directories that hold both entries, \<^verbatim>\<open>_split_paths\<close> returns those
  whose session date lies between the two bounds, both ends included, a bound that is
  \<^verbatim>\<open>None\<close> leaving its side open. With the bounds 2025-03-18 09:55:00 and 11:00:00 a
  session dated 10:00:00 is kept, one dated 08:00:00 is left out, and one dated exactly
  11:00:00 is kept.
\<close>

theorem date_filter:
  assumes res: "split_paths cfg crawler exists strptime = Inr splits"
    and cand: "e \<in> set (crawler (DATA_PATH cfg))" "exists (e @ ''/trajectory.h5'')"
      "exists (e @ ''/recordings/MP4'')"
  shows "\<exists>ps. splits = [(''train'', ps)] \<and>
     (e \<in> set ps \<longleftrightarrow> in_date_range cfg strptime e) \<and>
     (INITIAL_DATE cfg = Some (mar18 9 55 0) \<and> FINAL_DATE cfg = Some (mar18 11 0 0) \<longrightarrow>
        (session_date strptime e = Inr (mar18 10 0 0) \<longrightarrow> e \<in> set ps) \<and>
        (session_date strptime e = Inr (mar18 8 0 0) \<longrightarrow> e \<notin> set ps) \<and>
        (session_date strptime e = Inr (mar18 11 0 0) \<longrightarrow> e \<in> set ps)) \<and>
     (INITIAL_DATE cfg = None \<longrightarrow>
        (e \<in> set ps \<longleftrightarrow>
           (case FINAL_DATE cfg of None \<Rightarrow> True
            | Some d1 \<Rightarrow> (\<exists>d. session_date strptime e = Inr d \<and> datetime_le d d1)))) \<and>
     (FINAL_DATE cfg = None \<longrightarrow>
        (e \<in> set ps \<longleftrightarrow>
           (case INITIAL_DATE cfg of None \<Rightarrow> True
            | Some d0 \<Rightarrow> (\<exists>d. session_date strptime e = Inr d \<and> datetime_le d0 d))))"
proof -
  define ps where "ps = filter (in_date_range cfg strptime)
        (filter (\<lambda>p. exists (p @ ''/trajectory.h5'') \<and> exists (p @ ''/recordings/MP4''))
           (crawler (DATA_PATH cfg)))"
  from res have splits: "splits = [(''train'', ps)]"
    unfolding ps_def by (rule split_paths_Inr)
  from cand have mem: "e \<in> set ps \<longleftrightarrow> in_date_range cfg strptime e"
    by (simp add: ps_def)
  have dates: "(session_date strptime e = Inr (mar18 10 0 0) \<longrightarrow> in_date_range cfg strptime e) \<and>
        (session_date strptime e = Inr (mar18 8 0 0) \<longrightarrow> \<not> in_date_range cfg strptime e) \<and>
        (session_date strptime e = Inr (mar18 11 0 0) \<longrightarrow> in_date_range cfg strptime e)"
    if "INITIAL_DATE cfg = Some (mar18 9 55 0)" "FINAL_DATE cfg = Some (mar18 11 0 0)"
    using that by (simp add: in_date_range_def datetime_le_mar18)
  have lower: "in_date_range cfg strptime e \<longleftrightarrow>
           (case FINAL_DATE cfg of None \<Rightarrow> True
            | Some d1 \<Rightarrow> (\<exists>d. session_date strptime e = Inr d \<and> datetime_le d d1))"
    if "INITIAL_DATE cfg = None"
    using that by (auto simp: in_date_range_def split: option.splits sum.splits)
  have upper: "in_date_range cfg strptime e \<longleftrightarrow>
           (case INITIAL_DATE cfg of None \<Rightarrow> True
            | Some d0 \<Rightarrow> (\<exists>d. session_date strptime e = Inr d \<and> datetime_le d0 d))"
    if "FINAL_DATE cfg = None"
    using that by (auto simp: in_date_range_def split: option.splits sum.splits)
  show ?thesis
  proof (intro exI [of _ ps] conjI impI)
    show "splits = [(''train'', ps)]" by (rule splits)
    show "e \<in> set ps \<longleftrightarrow> in_date_range cfg strptime e" by (rule mem)
  qed (use mem dates lower upper in simp_all)
qed

theorem date_filter_witness:
  "split_paths module_config demo_crawler demo_exists demo_strptime =
     Inr [(''train'',
       [demo_session_path ''Tue_Mar_18_10:00:00_2025'',
        demo_session_path ''Tue_Mar_18_11:00:00_2025'',
        demo_session_path ''Tue_Mar_18_09:55:00_2025''])] \<and>
   session_date demo_strptime (demo_session_path ''Tue_Mar_18_10:00:00_2025'')
     = Inr (mar18 10 0 0) \<and>
   demo_session_path ''Tue_Mar_18_10:00:00_2025'' \<in>
     set [demo_session_path ''Tue_Mar_18_10:00:00_2025'',
        demo_session_path ''Tue_Mar_18_11:00:00_2025'',
        demo_session_path ''Tue_Mar_18_09:55:00_2025''] \<and>
   session_date demo_strptime (demo_session_path ''Tue_Mar_18_08:00:00_2025'')
     = Inr (mar18 8 0 0) \<and>
   demo_session_path ''Tue_Mar_18_08:00:00_2025'' \<notin>
     set [demo_session_path ''Tue_Mar_18_10:00:00_2025'',
        demo_session_path ''Tue_Mar_18_11:00:00_2025'',
        demo_session_path ''Tue_Mar_18_09:55:00_2025''] \<and>
   session_date demo_strptime (demo_session_path ''Tue_Mar_18_11:00:00_2025'')
     = Inr (mar18 11 0 0) \<and>
   demo_session_path ''Tue_Mar_18_11:00:00_2025'' \<in>
     set [demo_session_path ''Tue_Mar_18_10:00:00_2025'',
        demo_session_path ''Tue_Mar_18_11:00:00_2025'',
        demo_session_path ''Tue_Mar_18_09:55:00_2025''] \<and>
   split_paths open_config demo_crawler demo_exists demo_strptime =
     Inr [(''train'',
       [demo_session_path ''Tue_Mar_18_10:00:00_2025'',
        demo_session_path ''Tue_Mar_18_08:00:00_2025'',
        demo_session_path ''Tue_Mar_18_11:00:00_2025'',
        demo_session_path ''Tue_Mar_18_11:00:01_2025'',
        demo_session_path ''Tue_Mar_18_09:55:00_2025''])] \<and>
   demo_session_path ''Tue_Mar_18_08:00:00_2025'' \<in>
     set [demo_session_path ''Tue_Mar_18_10:00:00_2025'',
        demo_session_path ''Tue_Mar_18_08:00:00_2025'',
        demo_session_path ''Tue_Mar_18_11:00:00_2025'',
        demo_session_path ''Tue_Mar_18_11:00:01_2025'',
        demo_session_path ''Tue_Mar_18_09:55:00_2025'']"
proof -
  have c10: "demo_session_path ''Tue_Mar_18_10:00:00_2025''
      \<in> set (demo_crawler (DATA_PATH module_config))"
    and c08: "demo_session_path ''Tue_Mar_18_08:00:00_2025''
      \<in> set (demo_crawler (DATA_PATH module_config))"
    and c11: "demo_session_path ''Tue_Mar_18_11:00:00_2025''
      \<in> set (demo_crawler (DATA_PATH module_config))"
    by (rule demo_candidate, simp add: demo_sessions_def)+
  have o08: "demo_session_path ''Tue_Mar_18_08:00:00_2025''
      \<in> set (demo_crawler (DATA_PATH open_config))"
    using c08 by (simp add: open_config_def)
  from date_filter [OF demo_split c10 demo_files(1,2)] demo_bounds demo_dates(1)
  have k10: "demo_session_path ''Tue_Mar_18_10:00:00_2025'' \<in>
     set [demo_session_path ''Tue_Mar_18_10:00:00_2025'',
        demo_session_path ''Tue_Mar_18_11:00:00_2025'',
        demo_session_path ''Tue_Mar_18_09:55:00_2025'']"
    by simp
  from date_filter [OF demo_split c08 demo_files(3,4)] demo_bounds demo_dates(2)
  have k08: "demo_session_path ''Tue_Mar_18_08:00:00_2025'' \<notin>
     set [demo_session_path ''Tue_Mar_18_10:00:00_2025'',
        demo_session_path ''Tue_Mar_18_11:00:00_2025'',
        demo_session_path ''Tue_Mar_18_09:55:00_2025'']"
    by auto
  from date_filter [OF demo_split c11 demo_files(5,6)] demo_bounds demo_dates(3)
  have k11: "demo_session_path ''Tue_Mar_18_11:00:00_2025'' \<in>
     set [demo_session_path ''Tue_Mar_18_10:00:00_2025'',
        demo_session_path ''Tue_Mar_18_11:00:00_2025'',
        demo_session_path ''Tue_Mar_18_09:55:00_2025'']"
    by simp
  from date_filter [OF demo_split_open o08 demo_files(3,4)] demo_open_bounds
  have u08: "demo_session_path ''Tue_Mar_18_08:00:00_2025'' \<in>
     set [demo_session_path ''Tue_Mar_18_10:00:00_2025'',
        demo_session_path ''Tue_Mar_18_08:00:00_2025'',
        demo_session_path ''Tue_Mar_18_11:00:00_2025'',
        demo_session_path ''Tue_Mar_18_11:00:01_2025'',
        demo_session_path ''Tue_Mar_18_09:55:00_2025'']"
    by simp
  show ?thesis
    by (intro conjI demo_split demo_split_open demo_dates k10 k08 k11 u08)
qed

section \<open>Path discovery\<close>

text \<open>
  C9, as stated: every directory that \<^verbatim>\<open>_split_paths\<close> returns holds a file named
  \<^verbatim>\<open>trajectory.h5\<close> and a subdirectory \<^verbatim>\<open>recordings/MP4\<close>. The comprehension tests the
  two paths with \<^verbatim>\<open>os.path.exists\<close>, which does not look at the kind of an entry. In
  the sample below the session folder in which \<^verbatim>\<open>trajectory.h5\<close> is a directory and
  \<^verbatim>\<open>recordings/MP4\<close> a regular file is returned.
\<close>

theorem discovery_kinds_counterexample:
  "kinds_fs (kinds_swapped @ ''/trajectory.h5'') = Some Directory \<and>
   kinds_fs (kinds_swapped @ ''/recordings/MP4'') = Some RegularFile \<and>
   split_paths module_config kinds_crawler (os_path_exists kinds_fs) kinds_strptime =
     Inr [(''train'', [kinds_regular, kinds_swapped])]"
proof -
  have "kinds_fs (kinds_swapped @ ''/trajectory.h5'') = Some Directory" by code_simp
  moreover have "kinds_fs (kinds_swapped @ ''/recordings/MP4'') = Some RegularFile"
    by code_simp
  moreover have "split_paths module_config kinds_crawler (os_path_exists kinds_fs)
      kinds_strptime = Inr [(''train'', [kinds_regular, kinds_swapped])]"
    by code_simp
  ultimately show ?thesis by simp
qed

text \<open>
  C9, amended: every path that \<^verbatim>\<open>_split_paths\<close> returns was found by the crawler and
  has an entry, of whatever kind, at both \<^verbatim>\<open>trajectory.h5\<close> and \<^verbatim>\<open>recordings/MP4\<close>
  inside it: a directory without \<^verbatim>\<open>recordings/MP4\<close> is not returned, whether or not it
  holds a \<^verbatim>\<open>trajectory.h5\<close>.
\<close>

theorem discovery_requires_both:
  assumes res: "split_paths cfg crawler (os_path_exists fs) strptime = Inr splits"
    and ps: "(split, ps) \<in> set splits" and p: "p \<in> set ps"
  shows "p \<in> set (crawler (DATA_PATH cfg)) \<and> fs (p @ ''/trajectory.h5'') \<noteq> None \<and>
         fs (p @ ''/recordings/MP4'') \<noteq> None"
proof -
  from res have "splits = [(''train'', filter (in_date_range cfg strptime)
        (filter (\<lambda>p. os_path_exists fs (p @ ''/trajectory.h5'') \<and>
                      os_path_exists fs (p @ ''/recordings/MP4''))
           (crawler (DATA_PATH cfg))))]"
    by (rule split_paths_Inr)
  with ps p show ?thesis by (auto simp: os_path_exists_def)
qed

theorem discovery_requires_both_witness:
  "split_paths module_config kinds_crawler (os_path_exists kinds_fs) kinds_strptime =
     Inr [(''train'', [kinds_regular, kinds_swapped])] \<and>
   kinds_regular \<in> set (kinds_crawler (DATA_PATH module_config)) \<and>
   kinds_fs (kinds_regular @ ''/trajectory.h5'') \<noteq> None \<and>
   kinds_fs (kinds_regular @ ''/recordings/MP4'') \<noteq> None \<and>
   kinds_no_recordings \<in> set (kinds_crawler (DATA_PATH module_config)) \<and>
   kinds_fs (kinds_no_recordings @ ''/trajectory.h5'') = Some RegularFile \<and>
   kinds_fs (kinds_no_recordings @ ''/recordings/MP4'') = None \<and>
   in_date_range module_config kinds_strptime kinds_no_recordings \<and>
   kinds_no_recordings \<notin> set [kinds_regular, kinds_swapped]"
proof -
  let ?ps = "[kinds_regular, kinds_swapped]"
  have train: "(''train'', ?ps) \<in> set [(''train'', ?ps)]"
    and first: "kinds_regular \<in> set ?ps"
    by simp_all
  from discovery_requires_both [OF kinds_split train first]
  have a: "kinds_regular \<in> set (kinds_crawler (DATA_PATH module_config))"
    and b: "kinds_fs (kinds_regular @ ''/trajectory.h5'') \<noteq> None"
    and c: "kinds_fs (kinds_regular @ ''/recordings/MP4'') \<noteq> None"
    by simp_all
  have d: "kinds_no_recordings \<in> set (kinds_crawler (DATA_PATH module_config))"
    by (simp add: kinds_crawler_def)
  have e: "kinds_fs (kinds_no_recordings @ ''/trajectory.h5'') = Some RegularFile"
    by code_simp
  have f: "kinds_fs (kinds_no_recordings @ ''/recordings/MP4'') = None"
    by code_simp
  have g: "in_date_range module_config kinds_strptime kinds_no_recordings"
    by code_simp
  have h: "kinds_no_recordings \<notin> set ?ps"
  proof
    assume "kinds_no_recordings \<in> set ?ps"
    from discovery_requires_both [OF kinds_split train this] f show False by simp
  qed
  show ?thesis by (intro conjI kinds_split a b c d e f g h)
qed

section \<open>The image contract\<close>

text \<open>
  C8, as stated: in every step of every emitted episode both images have the shape
  (configured height, configured width, 3). The resizing loop runs over the image keys of
  the first raw step only, while the loop body picks the cameras of each step from that
  step's own \<^verbatim>\<open>camera_type\<close> dictionary. In the first sample below the exterior camera
  of the second step has no image in the first step: its frame of 1080 by 1920 pixels is
  emitted as it was loaded. In the second sample the frames have four channels, which
  resizing keeps.
\<close>

theorem image_contract_counterexample:
  "IMAGE_RES module_config = (360, 640) \<and>
   demo_loader_cameras (path_join demo_path_third_camera ''trajectory.h5'')
     (path_join (path_join demo_path_third_camera ''recordings'') ''MP4'')
     = Inr demo_data_third_camera \<and>
   parse_example module_config demo_loader_cameras demo_path_third_camera =
     ([], Some (demo_path_third_camera, demo_sample_third_camera)) \<and>
   shape (exterior_image_1_left (observation (steps demo_sample_third_camera ! 1)))
     = (1080, 1920, 3) \<and>
   demo_loader_cameras (path_join demo_path_four_channels ''trajectory.h5'')
     (path_join (path_join demo_path_four_channels ''recordings'') ''MP4'')
     = Inr demo_data_four_channels \<and>
   parse_example module_config demo_loader_cameras demo_path_four_channels =
     ([], Some (demo_path_four_channels, demo_sample_four_channels)) \<and>
   shape (exterior_image_1_left (observation (steps demo_sample_four_channels ! 0)))
     = (360, 640, 4)"
proof -
  have "IMAGE_RES module_config = (360, 640)" by (simp add: module_config_def)
  moreover have "demo_loader_cameras (path_join demo_path_third_camera ''trajectory.h5'')
     (path_join (path_join demo_path_third_camera ''recordings'') ''MP4'')
     = Inr demo_data_third_camera"
    by code_simp
  moreover have "shape (exterior_image_1_left
       (observation (steps demo_sample_third_camera ! 1))) = (1080, 1920, 3)"
    by code_simp
  moreover have "demo_loader_cameras (path_join demo_path_four_channels ''trajectory.h5'')
     (path_join (path_join demo_path_four_channels ''recordings'') ''MP4'')
     = Inr demo_data_four_channels"
    by code_simp
  moreover have "shape (exterior_image_1_left
       (observation (steps demo_sample_four_channels ! 0))) = (360, 640, 4)"
    by code_simp
  ultimately show ?thesis
    using demo_third_camera_emitted demo_four_channels_emitted by simp
qed

text \<open>
  C8, amended: every step of an emitted episode is built from a raw step of the
  trajectory, and when the two images selected for that raw step (the \<^verbatim>\<open>_left\<close> images
  of its first exterior and its first wrist camera) are three-channel frames stored under
  image keys that the first raw step has too, both emitted images,
  \<^verbatim>\<open>exterior_image_1_left\<close> and \<^verbatim>\<open>wrist_image_left\<close>, have the shape (configured
  height, configured width, 3) and 8-bit unsigned entries, whatever the height and width
  of the frames the loader returned; their pixels come from a bicubic resampling to the
  size (width, height), that is (\<^verbatim>\<open>IMAGE_RES[1]\<close>, \<^verbatim>\<open>IMAGE_RES[0]\<close>), with the channels
  reversed afterwards.
\<close>

theorem image_contract:
  assumes ld: "load_trajectory (path_join p ''trajectory.h5'')
        (path_join (path_join p ''recordings'') ''MP4'') = Inr data"
    and em: "parse_example cfg load_trajectory p = (out, Some (k, smp))"
    and s: "s \<in> set (steps smp)"
  shows "\<exists>ks. image_keys (hd data) = Inr ks \<and>
     (\<exists>raw\<in>set data. built_from cfg ks raw s) \<and>
     (\<forall>raw. built_from cfg ks raw s \<and> selected_frames_resizable ks raw \<longrightarrow>
        shape (exterior_image_1_left (observation s))
          = (fst (IMAGE_RES cfg), snd (IMAGE_RES cfg), 3) \<and>
        dtype (exterior_image_1_left (observation s)) = UInt8 \<and>
        (\<exists>px. pixels (exterior_image_1_left (observation s)) =
           ChannelsReversed (Resampled BICUBIC (snd (IMAGE_RES cfg), fst (IMAGE_RES cfg)) px)) \<and>
        shape (wrist_image_left (observation s))
          = (fst (IMAGE_RES cfg), snd (IMAGE_RES cfg), 3) \<and>
        dtype (wrist_image_left (observation s)) = UInt8 \<and>
        (\<exists>px. pixels (wrist_image_left (observation s)) =
           ChannelsReversed (Resampled BICUBIC (snd (IMAGE_RES cfg), fst (IMAGE_RES cfg)) px)))"
proof -
  let ?P = "\<lambda>raw. \<not> (FILTER_NO_OPS cfg \<and> zero_velocity raw)"
  from em obtain data0 ks where "load_trajectory (path_join p ''trajectory.h5'')
        (path_join (path_join p ''recordings'') ''MP4'') = Inr data0"
    and "image_keys (hd data0) = Inr ks"
    and "list_all2 (built_from cfg ks) (filter ?P data0) (steps smp)"
    by (rule parse_example_steps)
  with ld have ks: "image_keys (hd data) = Inr ks"
    and rel: "list_all2 (built_from cfg ks) (filter ?P data) (steps smp)"
    by simp_all
  from list_all2_right [OF rel s] have ex: "\<exists>raw\<in>set data. built_from cfg ks raw s"
    by auto
  let ?C = "shape (exterior_image_1_left (observation s))
          = (fst (IMAGE_RES cfg), snd (IMAGE_RES cfg), 3) \<and>
        dtype (exterior_image_1_left (observation s)) = UInt8 \<and>
        (\<exists>px. pixels (exterior_image_1_left (observation s)) =
           ChannelsReversed (Resampled BICUBIC (snd (IMAGE_RES cfg), fst (IMAGE_RES cfg)) px)) \<and>
        shape (wrist_image_left (observation s))
          = (fst (IMAGE_RES cfg), snd (IMAGE_RES cfg), 3) \<and>
        dtype (wrist_image_left (observation s)) = UInt8 \<and>
        (\<exists>px. pixels (wrist_image_left (observation s)) =
           ChannelsReversed (Resampled BICUBIC (snd (IMAGE_RES cfg), fst (IMAGE_RES cfg)) px))"
  have imp: "\<forall>raw. built_from cfg ks raw s \<and> selected_frames_resizable ks raw \<longrightarrow> ?C"
  proof (intro allI impI)
    fix raw
    assume "built_from cfg ks raw s \<and> selected_frames_resizable ks raw"
    then have "built_from cfg ks raw s" "selected_frames_resizable ks raw" by simp_all
    from built_from_selected [OF this] show ?C by (simp add: emitted_image_shape)
  qed
  show ?thesis
  proof (rule exI [of _ ks], rule conjI [OF ks], rule conjI [OF ex])
    show "\<forall>raw. built_from cfg ks raw s \<and> selected_frames_resizable ks raw \<longrightarrow> ?C"
      by (rule imp)
  qed
qed

theorem image_contract_witness:
  "demo_loader (path_join demo_path ''trajectory.h5'')
     (path_join (path_join demo_path ''recordings'') ''MP4'') = Inr demo_data \<and>
   parse_example module_config demo_loader demo_path = ([], Some (demo_path, demo_sample)) \<and>
   steps demo_sample ! 1 \<in> set (steps demo_sample) \<and>
   image_keys (hd demo_data) = Inr demo_keys \<and>
   built_from module_config demo_keys (demo_data ! 2) (steps demo_sample ! 1) \<and>
   selected_frames_resizable demo_keys (demo_data ! 2) \<and>
   IMAGE_RES module_config = (360, 640) \<and>
   shape (exterior_image_1_left (observation (steps demo_sample ! 1))) = (360, 640, 3) \<and>
   dtype (exterior_image_1_left (observation (steps demo_sample ! 1))) = UInt8 \<and>
   pixels (exterior_image_1_left (observation (steps demo_sample ! 1))) =
     ChannelsReversed (Resampled BICUBIC (640, 360) (Decoded 5)) \<and>
   shape (wrist_image_left (observation (steps demo_sample ! 1))) = (360, 640, 3) \<and>
   dtype (wrist_image_left (observation (steps demo_sample ! 1))) = UInt8 \<and>
   pixels (wrist_image_left (observation (steps demo_sample ! 1))) =
     ChannelsReversed (Resampled BICUBIC (640, 360) (Decoded 4))"
proof -
  have mem: "steps demo_sample ! 1 \<in> set (steps demo_sample)"
    by (simp add: demo_lengths)
  have res: "IMAGE_RES module_config = (360, 640)"
    by (simp add: module_config_def)
  have b: "built_from module_config demo_keys (demo_data ! 2) (steps demo_sample ! 1)"
    by code_simp
  have ok: "selected_frames_resizable demo_keys (demo_data ! 2)"
    by code_simp
  have pe: "pixels (exterior_image_1_left (observation (steps demo_sample ! 1))) =
     ChannelsReversed (Resampled BICUBIC (640, 360) (Decoded 5))"
    by code_simp
  have pw: "pixels (wrist_image_left (observation (steps demo_sample ! 1))) =
     ChannelsReversed (Resampled BICUBIC (640, 360) (Decoded 4))"
    by code_simp
  from image_contract
    [where load_trajectory = demo_loader and p = demo_path and cfg = module_config,
      OF demo_loaded demo_emitted mem] demo_image_keys
  have "\<forall>raw. built_from module_config demo_keys raw (steps demo_sample ! 1) \<and>
          selected_frames_resizable demo_keys raw \<longrightarrow>
        shape (exterior_image_1_left (observation (steps demo_sample ! 1)))
          = (fst (IMAGE_RES module_config), snd (IMAGE_RES module_config), 3) \<and>
        dtype (exterior_image_1_left (observation (steps demo_sample ! 1))) = UInt8 \<and>
        shape (wrist_image_left (observation (steps demo_sample ! 1)))
          = (fst (IMAGE_RES module_config), snd (IMAGE_RES module_config), 3) \<and>
        dtype (wrist_image_left (observation (steps demo_sample ! 1))) = UInt8"
    by auto
  with b ok res
  have "shape (exterior_image_1_left (observation (steps demo_sample ! 1))) = (360, 640, 3)"
    and "dtype (exterior_image_1_left (observation (steps demo_sample ! 1))) = UInt8"
    and "shape (wrist_image_left (observation (steps demo_sample ! 1))) = (360, 640, 3)"
    and "dtype (wrist_image_left (observation (steps demo_sample ! 1))) = UInt8"
    by auto
  with demo_loaded demo_emitted demo_image_keys mem res b ok pe pw show ?thesis by simp
qed

end
